theory Spec2Isabelle
  imports Complex_Main
begin

section \<open>The trading swarm: orchestrator, position table and trade pipeline\<close>

text \<open>
  A shallow embedding of \<^verbatim>\<open>src/swarm/src/swarm.ts\<close> (class \<^verbatim>\<open>Swarm\<close>),
  of \<^verbatim>\<open>executeBuy\<close>/\<open>executeSell\<close> of \<^verbatim>\<open>src/swarm/src/trading.ts\<close> and of
  \<^verbatim>\<open>llmScore\<close>/\<open>llmNarrativeAnalysis\<close> of \<^verbatim>\<open>src/swarm/src/llm.ts\<close>.

  Conventions.
  \<^item> A JavaScript \<^verbatim>\<open>number\<close> that holds a price, an amount or a percentage is a
    \<^typ>\<open>real\<close>; counts, millisecond periods, lamports and basis points are \<^typ>\<open>int\<close>
    or \<^typ>\<open>nat\<close>. Rounding, infinities and NaN of IEEE doubles are not modelled; a
    quotient whose divisor is 0, which JavaScript evaluates to an infinity or to NaN, has
    no counterpart in \<^typ>\<open>real\<close>: the theorem about the PnL that the price updater
    computes assumes that the divisor is not 0.
  \<^item> Every \<^verbatim>\<open>await\<close> of an external service is answered by a \<open>world\<close>: the
    market-data lookup, the whole quote/sign/send/confirm block of a swap (a function
    of the request that is sent), the wallet balance and the clock. A method runs from
    its first to its last statement without another method running in between.
  \<^item> An exception is a value: a function that can throw returns \<open>js_error + 'a\<close>, and a
    \<^verbatim>\<open>try/catch\<close> is a case distinction.
  \<^item> The SQLite tables are lists of rows in insertion order; statements on the
    database themselves do not fail.
  \<^item> \<^verbatim>\<open>this.log\<close> only forwards an entry to the \<^verbatim>\<open>onLog\<close> callback of the server
    and changes no field of \<^verbatim>\<open>Swarm\<close>; these calls are left out.
\<close>

subsection \<open>Types of \<^verbatim>\<open>trading.ts\<close>\<close>

text \<open>The fields of \<^verbatim>\<open>TokenInfo\<close> that the modelled methods read.\<close>

record TokenInfo =
  t_address :: string
  t_symbol :: string
  t_name :: string
  t_mcap :: real
  t_price :: real
  t_liquidity :: real

record TradeResult =
  r_success :: bool
  r_txHash :: "string option"
  r_error :: "string option"
  r_inputAmount :: real
  r_outputAmount :: "real option"
  r_price :: "real option"
  r_timestamp :: nat

text \<open>A thrown \<^verbatim>\<open>Error\<close> object: its \<^verbatim>\<open>name\<close> and its \<^verbatim>\<open>message\<close>.\<close>

record js_error =
  e_name :: string
  e_message :: string

text \<open>
  What the body of the \<^verbatim>\<open>try\<close> block of \<^verbatim>\<open>executeBuy\<close>/\<open>executeSell\<close> sends to the
  aggregator (\<^verbatim>\<open>getQuote(inputMint, outputMint, amount, slippageBps)\<close>) and how the
  block ends: some statement throws, or the transaction is confirmed with hash
  \<open>txHash\<close> for the quote \<open>quote\<close>.
\<close>

record swap_request =
  inputMint :: string
  outputMint :: string
  amount :: int
  req_slippageBps :: int

record quote =
  q_outAmount :: real
  q_outputDecimals :: "nat option"

datatype swap_outcome = Thrown js_error | Confirmed string quote

text \<open>
  The answers of the outside world to one call (or to one iteration of a loop):
  \<open>getTokenByAddress\<close> is the market-data lookup, \<open>None\<close> for \<^verbatim>\<open>null\<close> (the request
  failed or found no pair); \<open>jupiter\<close> answers the swap block; \<open>getBalance\<close> is
  \<^verbatim>\<open>connection.getBalance\<close>, in lamports, or the exception it throws; \<open>swap_clock\<close>
  is \<^verbatim>\<open>Date.now()\<close> as \<^verbatim>\<open>executeBuy\<close>/\<open>executeSell\<close> read it on entry, \<open>clock\<close> as the
  methods of \<^verbatim>\<open>Swarm\<close> read it.
\<close>

record world =
  getTokenByAddress :: "string \<Rightarrow> TokenInfo option"
  jupiter :: "swap_request \<Rightarrow> swap_outcome"
  getBalance :: "js_error + int"
  swap_clock :: nat
  clock :: nat

subsection \<open>Types of \<^verbatim>\<open>swarm.ts\<close>\<close>

record SwarmConfig =
  openrouterKey :: string
  model :: string
  rpcUrl :: string
  walletKey :: string
  maxPositionSol :: real
  stopLossPct :: real
  takeProfitPct :: real
  maxConcurrentTrades :: int
  minScoreToTrade :: real
  scanIntervalMs :: int
  slippageBps :: int

datatype agent_state = Idle | Running | Error | Waiting

record AgentStatus =
  a_id :: string
  a_name :: string
  a_status :: agent_state
  a_lastRun :: "nat option"
  a_lastResult :: "string option"

datatype pos_status = OPEN | CLOSED | STOPPED | TP_HIT

text \<open>A row of table \<^verbatim>\<open>positions\<close>, under its column names (\<^verbatim>\<open>id\<close> is \<open>pos_id\<close>).\<close>

record position =
  pos_id :: nat
  token_address :: string
  symbol :: string
  entry_price :: real
  entry_sol :: real
  token_amount :: real
  token_decimals :: nat
  current_price :: real
  pnl_pct :: real
  status :: pos_status
  entry_tx :: string
  exit_tx :: "string option"
  entry_time :: nat
  exit_time :: "nat option"
  score :: real
  narrative :: string

datatype side = BUY | SELL

text \<open>A row of table \<^verbatim>\<open>trade_history\<close> (the columns but the row id).\<close>

record trade =
  th_token_address :: string
  th_symbol :: string
  th_side :: side
  th_sol_amount :: real
  th_token_amount :: real
  th_price :: real
  th_tx_hash :: string
  th_success :: int
  th_error :: string
  th_timestamp :: nat

record LLMConfig =
  apiKey :: string
  llm_model :: string

datatype task = NarrativeScannerTask | CoinHunterTask | RiskManagerTask | PriceUpdaterTask

text \<open>A handle returned by \<^verbatim>\<open>setInterval(task, period)\<close>.\<close>

record timer =
  timer_task :: task
  timer_period :: int

text \<open>
  The fields of a \<^verbatim>\<open>Swarm\<close> object with the two tables the trade pipeline writes.
  \<open>positions_seq\<close> is the entry of table \<^verbatim>\<open>positions\<close> in \<^verbatim>\<open>sqlite_sequence\<close>, the
  largest row id handed out so far (\<^verbatim>\<open>AUTOINCREMENT\<close>). The tables \<^verbatim>\<open>narratives\<close> and \<^verbatim>\<open>scanned_tokens\<close> and the
  \<^verbatim>\<open>tokenCache\<close> are written by the two scanners only and are left out.
\<close>

record swarm =
  config :: SwarmConfig
  running :: bool
  wallet :: "string option"
  llmConfig :: "LLMConfig option"
  connection :: "string option"
  agents :: "string \<rightharpoonup> AgentStatus"
  intervals :: "timer list"
  positions :: "position list"
  positions_seq :: nat
  trade_history :: "trade list"

subsection \<open>JavaScript operators\<close>

text \<open>\<^verbatim>\<open>x || d\<close> on an optional number: \<^verbatim>\<open>undefined\<close> and \<^verbatim>\<open>0\<close> are falsy.\<close>

definition number_or :: "real option \<Rightarrow> real \<Rightarrow> real" where
  "number_or x d = (case x of None \<Rightarrow> d | Some v \<Rightarrow> if v = 0 then d else v)"

text \<open>\<^verbatim>\<open>x || d\<close> on an optional string: \<^verbatim>\<open>undefined\<close> and \<^verbatim>\<open>""\<close> are falsy.\<close>

definition string_or :: "string option \<Rightarrow> string \<Rightarrow> string" where
  "string_or x d = (case x of None \<Rightarrow> d | Some v \<Rightarrow> if v = [] then d else v)"

definition nat_or :: "nat option \<Rightarrow> nat \<Rightarrow> nat" where
  "nat_or x d = (case x of None \<Rightarrow> d | Some v \<Rightarrow> if v = 0 then d else v)"

text \<open>\<^verbatim>\<open>String(e)\<close> for an \<^verbatim>\<open>Error\<close> object (\<^verbatim>\<open>Error.prototype.toString\<close>).\<close>

definition String_of_error :: "js_error \<Rightarrow> string" where
  "String_of_error e =
     (if e_name e = [] then e_message e
      else if e_message e = [] then e_name e
      else e_name e @ '': '' @ e_message e)"

subsection \<open>\<^verbatim>\<open>trading.ts\<close>: the two swaps\<close>

definition LAMPORTS_PER_SOL :: real where
  "LAMPORTS_PER_SOL = 1000000000"

definition SOL_MINT :: string where
  "SOL_MINT = ''So11111111111111111111111111111111111111112''"

definition executeBuy :: "world \<Rightarrow> string \<Rightarrow> real \<Rightarrow> int \<Rightarrow> TradeResult" where
  "executeBuy w tokenAddress solAmount slippage =
     (let timestamp = swap_clock w;
          lamports = \<lfloor>solAmount * LAMPORTS_PER_SOL\<rfloor>
      in case jupiter w \<lparr>inputMint = SOL_MINT, outputMint = tokenAddress,
                         amount = lamports, req_slippageBps = slippage\<rparr> of
           Confirmed txHash q \<Rightarrow>
             (let outAmount = q_outAmount q / 10 ^ nat_or (q_outputDecimals q) 6
              in \<lparr>r_success = True, r_txHash = Some txHash, r_error = None,
                  r_inputAmount = solAmount, r_outputAmount = Some outAmount,
                  r_price = Some (solAmount / outAmount), r_timestamp = timestamp\<rparr>)
         | Thrown e \<Rightarrow>
             \<lparr>r_success = False, r_txHash = None,
              r_error = Some (string_or (Some (e_message e)) (String_of_error e)),
              r_inputAmount = solAmount, r_outputAmount = None, r_price = None,
              r_timestamp = timestamp\<rparr>)"

definition executeSell :: "world \<Rightarrow> string \<Rightarrow> real \<Rightarrow> nat \<Rightarrow> int \<Rightarrow> TradeResult" where
  "executeSell w tokenAddress tokenAmount tokenDecimals slippage =
     (let timestamp = swap_clock w;
          rawAmount = \<lfloor>tokenAmount * 10 ^ tokenDecimals\<rfloor>
      in case jupiter w \<lparr>inputMint = tokenAddress, outputMint = SOL_MINT,
                         amount = rawAmount, req_slippageBps = slippage\<rparr> of
           Confirmed txHash q \<Rightarrow>
             (let outLamports = q_outAmount q;
                  outSol = outLamports / LAMPORTS_PER_SOL
              in \<lparr>r_success = True, r_txHash = Some txHash, r_error = None,
                  r_inputAmount = tokenAmount, r_outputAmount = Some outSol,
                  r_price = Some (outSol / tokenAmount), r_timestamp = timestamp\<rparr>)
         | Thrown e \<Rightarrow>
             \<lparr>r_success = False, r_txHash = None,
              r_error = Some (string_or (Some (e_message e)) (String_of_error e)),
              r_inputAmount = tokenAmount, r_outputAmount = None, r_price = None,
              r_timestamp = timestamp\<rparr>)"

subsection \<open>\<^verbatim>\<open>swarm.ts\<close>: agent table\<close>

definition agentDefs :: "(string \<times> string) list" where
  "agentDefs =
     [(''narrative'', ''Narrative Scanner''), (''hunter'', ''Coin Hunter''),
      (''whale'', ''Whale Tracker''), (''risk'', ''Risk Manager''),
      (''executor'', ''Executor''), (''backtest'', ''Backtester'')]"

text \<open>
  The constructor, on the tables found in \<^verbatim>\<open>db/swarm.db\<close> (\<^verbatim>\<open>initDB\<close> creates a table
  only when it does not exist yet).
\<close>

definition Swarm :: "SwarmConfig \<Rightarrow> position list \<Rightarrow> nat \<Rightarrow> trade list \<Rightarrow> swarm" where
  "Swarm cfg rows seq hist =
     \<lparr>config = cfg, running = False, wallet = None, llmConfig = None, connection = None,
      agents = map_of (map (\<lambda>(i, n). (i, \<lparr>a_id = i, a_name = n, a_status = Idle,
                                          a_lastRun = None, a_lastResult = None\<rparr>)) agentDefs),
      intervals = [], positions = rows, positions_seq = seq, trade_history = hist\<rparr>"

definition setAgentStatus :: "string \<Rightarrow> agent_state \<Rightarrow> string option \<Rightarrow> nat \<Rightarrow> swarm \<Rightarrow> swarm" where
  "setAgentStatus aid st lastResult now s =
     (case agents s aid of
        None \<Rightarrow> s
      | Some agent \<Rightarrow>
          s\<lparr>agents := (agents s)(aid \<mapsto>
              agent\<lparr>a_status := st, a_lastRun := Some now,
                    a_lastResult := (if string_or lastResult [] \<noteq> [] then lastResult
                                     else a_lastResult agent)\<rparr>)\<rparr>)"

subsection \<open>\<^verbatim>\<open>swarm.ts\<close>: trade execution\<close>

text \<open>\<^verbatim>\<open>SELECT COUNT(*) FROM positions WHERE status = 'OPEN'\<close>\<close>

definition openCount :: "swarm \<Rightarrow> nat" where
  "openCount s = length (filter (\<lambda>p. status p = OPEN) (positions s))"

text \<open>
  The id \<^verbatim>\<open>AUTOINCREMENT\<close> gives the next row: one more than the largest id the table
  has ever used, which is the larger of the stored sequence value and the largest id
  in the table.
\<close>

definition next_id :: "swarm \<Rightarrow> nat" where
  "next_id s = Suc (max (positions_seq s) (fold max (map pos_id (positions s)) 0))"

text \<open>
  \<^verbatim>\<open>INSERT INTO positions\<close>: the row gets the next id; the columns the statement
  does not name get their defaults (\<^verbatim>\<open>pnl_pct\<close> 0, \<^verbatim>\<open>exit_tx\<close> and \<^verbatim>\<open>exit_time\<close> NULL).
\<close>

definition insert_position ::
  "string \<Rightarrow> string \<Rightarrow> real \<Rightarrow> real \<Rightarrow> real \<Rightarrow> nat \<Rightarrow> real \<Rightarrow> string \<Rightarrow> nat \<Rightarrow> real \<Rightarrow> string
     \<Rightarrow> swarm \<Rightarrow> swarm" where
  "insert_position addr symb entryPrice entrySol tokenAmount decimals currentPrice entryTx
       entryTime sc narr s =
     s\<lparr>positions := positions s @
          [\<lparr>pos_id = next_id s, token_address = addr, symbol = symb,
            entry_price = entryPrice, entry_sol = entrySol, token_amount = tokenAmount,
            token_decimals = decimals, current_price = currentPrice, pnl_pct = 0,
            status = OPEN, entry_tx = entryTx, exit_tx = None, entry_time = entryTime,
            exit_time = None, score = sc, narrative = narr\<rparr>],
       positions_seq := next_id s\<rparr>"

text \<open>\<^verbatim>\<open>INSERT INTO trade_history\<close>\<close>

definition insert_trade :: "trade \<Rightarrow> swarm \<Rightarrow> swarm" where
  "insert_trade t s = s\<lparr>trade_history := trade_history s @ [t]\<rparr>"

text \<open>
  The trade size of \<^verbatim>\<open>executeTrade\<close> for a wallet balance in lamports:
  \<^verbatim>\<open>Math.min(maxPositionSol, solBal * 0.3)\<close>.
\<close>

definition tradeSize :: "SwarmConfig \<Rightarrow> int \<Rightarrow> real" where
  "tradeSize cfg balance =
     (let solBal = real_of_int balance / LAMPORTS_PER_SOL
      in min (maxPositionSol cfg) (solBal * 0.3))"

text \<open>
  \<^verbatim>\<open>executeTrade\<close> (private; called by the Coin Hunter). The only statement that can
  throw is the balance query, before anything is written.
\<close>

definition executeTrade :: "world \<Rightarrow> TokenInfo \<Rightarrow> real \<Rightarrow> string \<Rightarrow> swarm \<Rightarrow> js_error + swarm" where
  "executeTrade w token sc narr s =
     (if wallet s = None then Inr s
      else if int (openCount s) \<ge> maxConcurrentTrades (config s) then Inr s
      else case find (\<lambda>p. token_address p = t_address token \<and> status p = OPEN) (positions s) of
        Some existing \<Rightarrow> Inr s
      | None \<Rightarrow>
         (case getBalance w of
            Inl e \<Rightarrow> Inl e
          | Inr balance \<Rightarrow>
             (let size = tradeSize (config s) balance
              in if size < 0.005 then Inr s
                 else
                  (let s1 = setAgentStatus ''executor'' Running None (clock w) s;
                       result = executeBuy w (t_address token) size (slippageBps (config s));
                       s2 = insert_trade
                              \<lparr>th_token_address = t_address token, th_symbol = t_symbol token,
                               th_side = BUY, th_sol_amount = size,
                               th_token_amount = number_or (r_outputAmount result) 0,
                               th_price = number_or (r_price result) 0,
                               th_tx_hash = string_or (r_txHash result) [],
                               th_success = (if r_success result then 1 else 0),
                               th_error = string_or (r_error result) [],
                               th_timestamp = r_timestamp result\<rparr> s1
                   in if r_success result
                      then Inr (insert_position (t_address token) (t_symbol token) (t_price token)
                                  size (number_or (r_outputAmount result) 0) 6 (t_price token)
                                  (string_or (r_txHash result) []) (clock w) sc narr s2)
                      else Inr s2))))"

text \<open>\<^verbatim>\<open>UPDATE positions SET ... WHERE id = ?\<close>\<close>

definition update_position :: "nat \<Rightarrow> (position \<Rightarrow> position) \<Rightarrow> swarm \<Rightarrow> swarm" where
  "update_position i f s = s\<lparr>positions := map (\<lambda>p. if pos_id p = i then f p else p) (positions s)\<rparr>"

definition closePosition :: "world \<Rightarrow> nat \<Rightarrow> pos_status \<Rightarrow> swarm \<Rightarrow> swarm" where
  "closePosition w positionId reason s =
     (if wallet s = None then s
      else case find (\<lambda>p. pos_id p = positionId) (positions s) of
        None \<Rightarrow> s
      | Some pos \<Rightarrow>
          if status pos \<noteq> OPEN then s
          else
           (let result = executeSell w (token_address pos) (token_amount pos) (token_decimals pos)
                           (slippageBps (config s));
                s1 = insert_trade
                       \<lparr>th_token_address = token_address pos, th_symbol = symbol pos,
                        th_side = SELL, th_sol_amount = number_or (r_outputAmount result) 0,
                        th_token_amount = token_amount pos,
                        th_price = number_or (r_price result) 0,
                        th_tx_hash = string_or (r_txHash result) [],
                        th_success = (if r_success result then 1 else 0),
                        th_error = string_or (r_error result) [],
                        th_timestamp = r_timestamp result\<rparr> s
            in if r_success result
               then update_position positionId
                      (\<lambda>p. p\<lparr>status := reason, exit_tx := Some (string_or (r_txHash result) []),
                              exit_time := Some (clock w),
                              current_price := number_or (r_price result) (current_price pos),
                              pnl_pct := pnl_pct pos\<rparr>) s1
               else s1))"

subsection \<open>\<^verbatim>\<open>swarm.ts\<close>: manual trade API\<close>

definition manualBuy :: "world \<Rightarrow> string \<Rightarrow> real \<Rightarrow> swarm \<Rightarrow> TradeResult option \<times> swarm" where
  "manualBuy w tokenAddress solAmount s =
     (if wallet s = None then (None, s)
      else case getTokenByAddress w tokenAddress of
        None \<Rightarrow> (None, s)
      | Some token \<Rightarrow>
         (let result = executeBuy w tokenAddress solAmount (slippageBps (config s));
              s1 = insert_trade
                     \<lparr>th_token_address = tokenAddress, th_symbol = t_symbol token,
                      th_side = BUY, th_sol_amount = solAmount,
                      th_token_amount = number_or (r_outputAmount result) 0,
                      th_price = number_or (r_price result) 0,
                      th_tx_hash = string_or (r_txHash result) [],
                      th_success = (if r_success result then 1 else 0),
                      th_error = string_or (r_error result) [],
                      th_timestamp = r_timestamp result\<rparr> s
          in if r_success result
             then (Some result,
                   insert_position tokenAddress (t_symbol token) (t_price token) solAmount
                     (number_or (r_outputAmount result) 0) 6 (t_price token)
                     (string_or (r_txHash result) []) (clock w) 0 ''Manual'' s1)
             else (Some result, s1)))"

definition manualSell :: "world \<Rightarrow> nat \<Rightarrow> swarm \<Rightarrow> TradeResult option \<times> swarm" where
  "manualSell w positionId s =
     (if wallet s = None then (None, s)
      else case find (\<lambda>p. pos_id p = positionId \<and> status p = OPEN) (positions s) of
        None \<Rightarrow> (None, s)
      | Some pos \<Rightarrow>
          (Some \<lparr>r_success = True, r_txHash = None, r_error = None,
                 r_inputAmount = token_amount pos, r_outputAmount = None, r_price = None,
                 r_timestamp = clock w\<rparr>,
           closePosition w positionId CLOSED s))"

subsection \<open>\<^verbatim>\<open>swarm.ts\<close>: risk manager and price updater\<close>

text \<open>
  The body of the loop of \<^verbatim>\<open>runRiskManager\<close> for one row \<open>pos\<close> of the snapshot of
  open positions.
\<close>

definition riskCheck :: "world \<Rightarrow> position \<Rightarrow> swarm \<Rightarrow> swarm" where
  "riskCheck w pos s =
     (if pnl_pct pos \<le> - stopLossPct (config s) then closePosition w (pos_id pos) STOPPED s
      else if pnl_pct pos \<ge> takeProfitPct (config s) then closePosition w (pos_id pos) TP_HIT s
      else case getTokenByAddress w (token_address pos) of
             Some tokenData \<Rightarrow>
               if t_liquidity tokenData < 3000 then closePosition w (pos_id pos) STOPPED s else s
           | None \<Rightarrow> s)"

text \<open>The loop; \<open>ws i\<close> is the world that answers the \<open>i\<close>-th iteration.\<close>

fun riskLoop :: "(nat \<Rightarrow> world) \<Rightarrow> nat \<Rightarrow> position list \<Rightarrow> swarm \<Rightarrow> swarm" where
  "riskLoop ws i [] s = s"
| "riskLoop ws i (pos # rest) s = riskLoop ws (Suc i) rest (riskCheck (ws i) pos s)"

fun string_of_nat :: "nat \<Rightarrow> string" where
  "string_of_nat n =
     (if n < 10 then [char_of (48 + n)]
      else string_of_nat (n div 10) @ [char_of (48 + n mod 10)])"

text \<open>
  \<^verbatim>\<open>runRiskManager\<close>; \<open>w\<close> answers the portfolio-heat balance query after the loop, whose
  exception is the one the \<^verbatim>\<open>catch\<close> block can see.
\<close>

definition runRiskManager :: "(nat \<Rightarrow> world) \<Rightarrow> world \<Rightarrow> swarm \<Rightarrow> swarm" where
  "runRiskManager ws w s =
     (if \<not> running s then s
      else
       (let s1 = setAgentStatus ''risk'' Running None (clock w) s;
            openPositions = filter (\<lambda>p. status p = OPEN) (positions s1)
        in if length openPositions = 0
           then setAgentStatus ''risk'' Running (Some ''No open positions'') (clock w) s1
           else
            (let s2 = riskLoop ws 0 openPositions s1
             in case (if wallet s2 \<noteq> None then getBalance w else Inr 0) of
                  Inl e \<Rightarrow> setAgentStatus ''risk'' Error (Some (e_message e)) (clock w) s2
                | Inr bal \<Rightarrow>
                    setAgentStatus ''risk'' Running
                      (Some (''Monitoring '' @ string_of_nat (length openPositions) @ '' positions''))
                      (clock w) s2)))"

text \<open>
  The body of the loop of \<^verbatim>\<open>runPriceUpdater\<close> for one row of the snapshot. The
  quotient is the one of \<^typ>\<open>real\<close>: for a row whose \<^verbatim>\<open>entry_price\<close> is 0 the program
  computes an infinity or NaN, which the column \<open>pnl_pct\<close> of the model cannot hold, so
  what is proved about the \<^verbatim>\<open>pnl_pct\<close> written here is proved for rows with
  \<open>entry_price pos \<noteq> 0\<close> only.
\<close>

definition priceUpdate :: "world \<Rightarrow> position \<Rightarrow> swarm \<Rightarrow> swarm" where
  "priceUpdate w pos s =
     (case getTokenByAddress w (token_address pos) of
        Some tokenData \<Rightarrow>
          (let pnlPct = ((t_price tokenData - entry_price pos) / entry_price pos) * 100
           in update_position (pos_id pos)
                (\<lambda>p. p\<lparr>current_price := t_price tokenData, pnl_pct := pnlPct\<rparr>) s)
      | None \<Rightarrow> s)"

fun priceLoop :: "(nat \<Rightarrow> world) \<Rightarrow> nat \<Rightarrow> position list \<Rightarrow> swarm \<Rightarrow> swarm" where
  "priceLoop ws i [] s = s"
| "priceLoop ws i (pos # rest) s = priceLoop ws (Suc i) rest (priceUpdate (ws i) pos s)"

definition runPriceUpdater :: "(nat \<Rightarrow> world) \<Rightarrow> swarm \<Rightarrow> swarm" where
  "runPriceUpdater ws s =
     (if \<not> running s then s
      else priceLoop ws 0 (filter (\<lambda>p. status p = OPEN) (positions s)) s)"

subsection \<open>\<^verbatim>\<open>swarm.ts\<close>: start and stop\<close>

text \<open>
  \<^verbatim>\<open>start\<close>. \<open>createWallet\<close> is the key decoder of \<^verbatim>\<open>trading.ts\<close> (library calls only),
  which throws on a malformed key. The two awaited scan passes are the arguments
  \<open>runNarrativeScanner\<close> and \<open>runCoinHunter\<close>: each body is one \<^verbatim>\<open>try/catch\<close> that
  handles every exception, so each pass returns to \<^verbatim>\<open>start\<close>, with whatever state it
  leaves.
\<close>

text \<open>
  Three stretches of \<^verbatim>\<open>start\<close>, in the order the method runs them: \<open>deployAgents\<close> is
  the six \<^verbatim>\<open>setAgentStatus(..., "running")\<close> calls; \<open>scheduleLoops\<close> is the
  \<^verbatim>\<open>this.intervals.push\<close> of the four \<^verbatim>\<open>setInterval\<close> handles; \<open>launch\<close> is all that
  follows the loading of the wallet, from \<^verbatim>\<open>this.running = true\<close> to the end.
\<close>

definition deployAgents :: "nat \<Rightarrow> swarm \<Rightarrow> swarm" where
  "deployAgents now s =
     setAgentStatus ''backtest'' Running None now
      (setAgentStatus ''executor'' Running None now
        (setAgentStatus ''risk'' Running None now
          (setAgentStatus ''whale'' Running None now
            (setAgentStatus ''hunter'' Running None now
              (setAgentStatus ''narrative'' Running None now s)))))"

text \<open>\<^verbatim>\<open>this.config.scanIntervalMs || 60000\<close>\<close>

definition scanInterval :: "swarm \<Rightarrow> int" where
  "scanInterval s =
     (if scanIntervalMs (config s) = 0 then 60000 else scanIntervalMs (config s))"

definition scheduleLoops :: "swarm \<Rightarrow> swarm" where
  "scheduleLoops s =
     s\<lparr>intervals := intervals s @
         [\<lparr>timer_task = NarrativeScannerTask, timer_period = scanInterval s * 2\<rparr>,
          \<lparr>timer_task = CoinHunterTask, timer_period = scanInterval s\<rparr>,
          \<lparr>timer_task = RiskManagerTask, timer_period = 30000\<rparr>,
          \<lparr>timer_task = PriceUpdaterTask, timer_period = 20000\<rparr>]\<rparr>"

definition launch :: "world \<Rightarrow> (swarm \<Rightarrow> swarm) \<Rightarrow> (swarm \<Rightarrow> swarm) \<Rightarrow> swarm \<Rightarrow> swarm" where
  "launch w runNarrativeScanner runCoinHunter s =
     scheduleLoops (runCoinHunter (runNarrativeScanner
       (deployAgents (clock w) (s\<lparr>running := True\<rparr>))))"

definition start ::
  "(string \<Rightarrow> js_error + string) \<Rightarrow> world \<Rightarrow> (swarm \<Rightarrow> swarm) \<Rightarrow> (swarm \<Rightarrow> swarm) \<Rightarrow> swarm \<Rightarrow> swarm" where
  "start createWallet w runNarrativeScanner runCoinHunter s =
     (if running s then s
      else if openrouterKey (config s) = [] then s
      else if rpcUrl (config s) = [] then s
      else
       (let s1 = s\<lparr>llmConfig := Some \<lparr>apiKey = openrouterKey (config s),
                                       llm_model = string_or (Some (model (config s)))
                                                     ''deepseek/deepseek-chat''\<rparr>,
                    connection := Some (rpcUrl (config s))\<rparr>
        in if walletKey (config s1) \<noteq> []
           then (case createWallet (walletKey (config s1)) of
                   Inl e \<Rightarrow> s1
                 | Inr keypair \<Rightarrow>
                    (let s2 = s1\<lparr>wallet := Some keypair\<rparr>
                     in case getBalance w of
                          Inl e \<Rightarrow> s2
                        | Inr bal \<Rightarrow> launch w runNarrativeScanner runCoinHunter s2))
           else launch w runNarrativeScanner runCoinHunter s1))"

definition stop :: "nat \<Rightarrow> swarm \<Rightarrow> swarm" where
  "stop now s =
     s\<lparr>running := False, intervals := [],
       agents := (\<lambda>k. map_option (\<lambda>a. a\<lparr>a_status := Idle, a_lastRun := Some now\<rparr>)
                        (agents s k))\<rparr>"

subsection \<open>Runs of the trade pipeline\<close>

text \<open>
  The calls that read or write table \<^verbatim>\<open>positions\<close>, each with the world that answers
  it. An exception of \<^verbatim>\<open>executeTrade\<close> is caught by its caller, the Coin Hunter
  (\<^verbatim>\<open>Failed to score\<close>), and leaves the state as it was.
\<close>

datatype event =
    ExecuteTrade world TokenInfo real string
  | ManualBuy world string real
  | ManualSell world nat
  | RiskManagerTick "nat \<Rightarrow> world" world
  | PriceUpdaterTick "nat \<Rightarrow> world"
  | Stop nat

fun step :: "event \<Rightarrow> swarm \<Rightarrow> swarm" where
  "step (ExecuteTrade w token sc narr) s =
     (case executeTrade w token sc narr s of Inl e \<Rightarrow> s | Inr s' \<Rightarrow> s')"
| "step (ManualBuy w tokenAddress solAmount) s = snd (manualBuy w tokenAddress solAmount s)"
| "step (ManualSell w positionId) s = snd (manualSell w positionId s)"
| "step (RiskManagerTick ws w) s = runRiskManager ws w s"
| "step (PriceUpdaterTick ws) s = runPriceUpdater ws s"
| "step (Stop now) s = stop now s"

definition run :: "event list \<Rightarrow> swarm \<Rightarrow> swarm" where
  "run evs s = fold step evs s"

subsection \<open>\<^verbatim>\<open>llm.ts\<close>: decoding the reply of the reasoning service\<close>

datatype json =
    JNull | JBool bool | JNumber real | JString string
  | JArray "json list" | JObject "(string \<times> json) list"

definition drop_newline :: "string \<Rightarrow> string" where
  "drop_newline cs = (case cs of [] \<Rightarrow> [] | c # r \<Rightarrow> if c = CHR 0x0A then r else c # r)"

text \<open>\<^verbatim>\<open>.replace(/```json\n?/g, "")\<close>\<close>

function replace_json_fence :: "string \<Rightarrow> string" where
  "replace_json_fence [] = []"
| "replace_json_fence (c # cs) =
     (if take 7 (c # cs) = ''```json'' then replace_json_fence (drop_newline (drop 6 cs))
      else c # replace_json_fence cs)"
  by pat_completeness auto
termination
proof (relation "measure length")
  fix c :: char and cs :: string
  have "length (drop_newline xs) \<le> length xs" for xs
    by (simp add: drop_newline_def split: list.splits)
  from this [of "drop 6 cs"] have "length (drop_newline (drop 6 cs)) < length (c # cs)"
    by simp
  then show "(drop_newline (drop 6 cs), c # cs) \<in> measure length"
    by simp
qed simp_all

text \<open>\<^verbatim>\<open>.replace(/```/g, "")\<close>\<close>

function replace_fence :: "string \<Rightarrow> string" where
  "replace_fence [] = []"
| "replace_fence (c # cs) =
     (if take 3 (c # cs) = ''```'' then replace_fence (drop 2 cs)
      else c # replace_fence cs)"
  by pat_completeness auto
termination
  by (relation "measure length") auto

text \<open>
  \<^verbatim>\<open>.trim()\<close>, on text of 8-bit characters: tab, line feed, vertical tab, form feed,
  carriage return, space and no-break space are the white space of this range.
\<close>

definition is_space :: "char \<Rightarrow> bool" where
  "is_space c = (c \<in> set [CHR 0x09, CHR 0x0A, CHR 0x0B, CHR 0x0C, CHR 0x0D, CHR 0x20, CHR 0xA0])"

definition trim :: "string \<Rightarrow> string" where
  "trim cs = rev (dropWhile is_space (rev (dropWhile is_space cs)))"

definition cleaned :: "string \<Rightarrow> string" where
  "cleaned raw = trim (replace_fence (replace_json_fence raw))"

definition score_sentinel :: json where
  "score_sentinel =
     JObject [(''score'', JNumber 0), (''reasoning'', JString ''Failed to parse LLM response''),
              (''signal'', JString ''SKIP'')]"

definition narratives_sentinel :: json where
  "narratives_sentinel = JObject [(''narratives'', JArray [])]"

text \<open>
  \<open>chat\<close> is how \<^verbatim>\<open>await llmChat(...)\<close> ends: it throws (network failure, HTTP error
  status), or it returns the text of the reply. \<open>JSON_parse\<close> is the built-in parser,
  \<open>None\<close> where it throws \<^verbatim>\<open>SyntaxError\<close>.
\<close>

definition llmScore :: "(string \<Rightarrow> json option) \<Rightarrow> js_error + string \<Rightarrow> js_error + json" where
  "llmScore JSON_parse chat =
     (case chat of
        Inl e \<Rightarrow> Inl e
      | Inr raw \<Rightarrow>
         (case JSON_parse (cleaned raw) of
            Some v \<Rightarrow> Inr v
          | None \<Rightarrow> Inr score_sentinel))"

definition llmNarrativeAnalysis :: "(string \<Rightarrow> json option) \<Rightarrow> js_error + string \<Rightarrow> js_error + json" where
  "llmNarrativeAnalysis JSON_parse chat =
     (case chat of
        Inl e \<Rightarrow> Inl e
      | Inr raw \<Rightarrow>
         (case JSON_parse (cleaned raw) of
            Some v \<Rightarrow> Inr v
          | None \<Rightarrow> Inr narratives_sentinel))"

text \<open>Reading a field of a decoded object, as \<^verbatim>\<open>result.score\<close> does.\<close>

definition field :: "json \<Rightarrow> string \<Rightarrow> json option" where
  "field v k = (case v of JObject kvs \<Rightarrow> map_of kvs k | _ \<Rightarrow> None)"

subsection \<open>Counting open rows\<close>

text \<open>
  \<^verbatim>\<open>SELECT COUNT(*) FROM positions WHERE status = 'OPEN'\<close> restricted to the token
  addresses that satisfy \<open>A\<close>; and the events that are manual buys.
\<close>

definition openRows :: "(string \<Rightarrow> bool) \<Rightarrow> swarm \<Rightarrow> nat" where
  "openRows A s = length (filter (\<lambda>p. A (token_address p) \<and> status p = OPEN) (positions s))"

definition isManualBuy :: "event \<Rightarrow> bool" where
  "isManualBuy e = (case e of ManualBuy w a x \<Rightarrow> True | _ \<Rightarrow> False)"

subsection \<open>The row a close leaves behind\<close>

text \<open>
  The row \<open>pos\<close> after \<^verbatim>\<open>closePosition\<close> has sold it with result \<open>result\<close>: the
  \<^verbatim>\<open>UPDATE\<close> of \<^verbatim>\<open>closePosition\<close> applied to \<open>pos\<close> when the sale succeeded, \<open>pos\<close>
  itself when it failed.
\<close>

definition closed_row :: "pos_status \<Rightarrow> world \<Rightarrow> TradeResult \<Rightarrow> position \<Rightarrow> position" where
  "closed_row reason w result pos =
     (if r_success result
      then pos\<lparr>status := reason, exit_tx := Some (string_or (r_txHash result) []),
               exit_time := Some (clock w),
               current_price := number_or (r_price result) (current_price pos),
               pnl_pct := pnl_pct pos\<rparr>
      else pos)"

text \<open>
  Two notions for the proofs about the loop of \<^verbatim>\<open>runRiskManager\<close>: whether the loop
  body calls \<^verbatim>\<open>closePosition\<close> for the snapshot row \<open>pos\<close>, and the row that the body
  leaves in the table for an open \<open>pos\<close>.
\<close>

definition riskFires :: "SwarmConfig \<Rightarrow> world \<Rightarrow> position \<Rightarrow> bool" where
  "riskFires cfg w pos =
     (pnl_pct pos \<le> - stopLossPct cfg \<or> pnl_pct pos \<ge> takeProfitPct cfg
      \<or> (case getTokenByAddress w (token_address pos) of
            Some tokenData \<Rightarrow> t_liquidity tokenData < 3000
          | None \<Rightarrow> False))"

definition riskRow :: "SwarmConfig \<Rightarrow> world \<Rightarrow> position \<Rightarrow> position" where
  "riskRow cfg w pos =
     (let result = executeSell w (token_address pos) (token_amount pos) (token_decimals pos)
                     (slippageBps cfg)
      in if pnl_pct pos \<le> - stopLossPct cfg then closed_row STOPPED w result pos
         else if pnl_pct pos \<ge> takeProfitPct cfg then closed_row TP_HIT w result pos
         else case getTokenByAddress w (token_address pos) of
                Some tokenData \<Rightarrow>
                  if t_liquidity tokenData < 3000 then closed_row STOPPED w result pos else pos
              | None \<Rightarrow> pos)"

subsection \<open>A concrete configuration, two tokens and two worlds\<close>

text \<open>
  Used where a theorem is instantiated: the default risk parameters with room for one
  open position, a wallet holding 1 SOL, a swap that is confirmed for 100 tokens
  (\<open>world_ok\<close>) and one whose quote request is rejected (\<open>world_fail\<close>).
\<close>

definition cfg0 :: SwarmConfig where
  "cfg0 = \<lparr>openrouterKey = ''sk-or-1'', model = [], rpcUrl = ''https://rpc.example'',
            walletKey = ''5Kd3'', maxPositionSol = 0.05, stopLossPct = 30, takeProfitPct = 100,
            maxConcurrentTrades = 1, minScoreToTrade = 80, scanIntervalMs = 60000,
            slippageBps = 500\<rparr>"

definition tokenA :: TokenInfo where
  "tokenA = \<lparr>t_address = ''A'', t_symbol = ''AAA'', t_name = ''Alpha'', t_mcap = 1000000,
              t_price = 2, t_liquidity = 50000\<rparr>"

definition tokenB :: TokenInfo where
  "tokenB = \<lparr>t_address = ''B'', t_symbol = ''BBB'', t_name = ''Beta'', t_mcap = 2000000,
              t_price = 4, t_liquidity = 80000\<rparr>"

definition world_ok :: world where
  "world_ok =
     \<lparr>getTokenByAddress = (\<lambda>a. if a = ''A'' then Some tokenA
                               else if a = ''B'' then Some tokenB else None),
      jupiter = (\<lambda>r. Confirmed ''tx1'' \<lparr>q_outAmount = 100000000, q_outputDecimals = None\<rparr>),
      getBalance = Inr 1000000000, swap_clock = 10, clock = 11\<rparr>"

definition world_fail :: world where
  "world_fail =
     world_ok\<lparr>jupiter := (\<lambda>r. Thrown \<lparr>e_name = ''Error'',
                                         e_message = ''Jupiter quote error: 400''\<rparr>)\<rparr>"

definition started :: swarm where
  "started = (Swarm cfg0 [] 0 [])\<lparr>running := True, wallet := Some ''5Kd3''\<rparr>"

text \<open>The started swarm after one confirmed manual buy of token A, and the row it holds.\<close>

definition holdingA :: swarm where
  "holdingA = snd (manualBuy world_ok ''A'' 0.05 started)"

definition positionA :: position where
  "positionA =
     \<lparr>pos_id = 1, token_address = ''A'', symbol = ''AAA'', entry_price = 2, entry_sol = 0.05,
      token_amount = 100, token_decimals = 6, current_price = 2, pnl_pct = 0, status = OPEN,
      entry_tx = ''tx1'', exit_tx = None, entry_time = 11, exit_time = None, score = 0,
      narrative = ''Manual''\<rparr>"

text \<open>
  After a second confirmed manual buy, of token B; and a world in which the lookup of
  token A fails while token B trades at 5.
\<close>

definition positionB :: position where
  "positionB =
     \<lparr>pos_id = 2, token_address = ''B'', symbol = ''BBB'', entry_price = 4, entry_sol = 0.05,
      token_amount = 100, token_decimals = 6, current_price = 4, pnl_pct = 0, status = OPEN,
      entry_tx = ''tx1'', exit_tx = None, entry_time = 11, exit_time = None, score = 0,
      narrative = ''Manual''\<rparr>"

definition holdingAB :: swarm where
  "holdingAB = snd (manualBuy world_ok ''B'' 0.05 holdingA)"


text \<open>The swarm with both positions under a configuration whose two thresholds are 0.\<close>

definition boundaryAB :: swarm where
  "boundaryAB = holdingAB\<lparr>config := cfg0\<lparr>stopLossPct := 0, takeProfitPct := 0\<rparr>\<rparr>"

text \<open>The same swarm in monitoring mode: no wallet is loaded.\<close>

definition watchingAB :: swarm where
  "watchingAB = boundaryAB\<lparr>wallet := None\<rparr>"

text \<open>The swarm as the constructor builds it on an empty database.\<close>

definition fresh :: swarm where
  "fresh = Swarm cfg0 [] 0 []"

text \<open>A world whose wallet holds 0.001 SOL only.\<close>

definition world_poor :: world where
  "world_poor = world_ok\<lparr>getBalance := Inr 1000000\<rparr>"

text \<open>The started swarm with room for three open positions.\<close>

definition started3 :: swarm where
  "started3 = started\<lparr>config := cfg0\<lparr>maxConcurrentTrades := 3\<rparr>\<rparr>"

text \<open>A key decoder that rejects every key.\<close>

definition createWallet_rejects :: "string \<Rightarrow> js_error + string" where
  "createWallet_rejects key = Inl \<lparr>e_name = ''Error'', e_message = ''Non-base58 character''\<rparr>"

text \<open>
  \<open>holdingA\<close> after its position is closed as a take-profit; a world in which token A
  trades at 1.38; and \<open>holdingA\<close> after a price tick in that world, which leaves the
  position at a PnL of -31 percent.
\<close>

definition closedA :: swarm where
  "closedA = closePosition world_ok 1 TP_HIT holdingA"

definition world_down :: world where
  "world_down =
     world_ok\<lparr>getTokenByAddress :=
                (\<lambda>a. if a = ''A'' then Some (tokenA\<lparr>t_price := 1.38\<rparr>) else None)\<rparr>"

definition droppedA :: swarm where
  "droppedA = runPriceUpdater (\<lambda>i. world_down) holdingA"

declare string_of_nat.simps [simp del]
declare replace_json_fence.simps [simp del]
declare replace_fence.simps [simp del]

section \<open>Lemmas about the operations\<close>

subsection \<open>The agent table\<close>

lemma positions_setAgentStatus [simp]: "positions (setAgentStatus a st r n s) = positions s"
  by (simp add: setAgentStatus_def split: option.splits)

lemma trade_history_setAgentStatus [simp]:
  "trade_history (setAgentStatus a st r n s) = trade_history s"
  by (simp add: setAgentStatus_def split: option.splits)

lemma positions_seq_setAgentStatus [simp]:
  "positions_seq (setAgentStatus a st r n s) = positions_seq s"
  by (simp add: setAgentStatus_def split: option.splits)

lemma config_setAgentStatus [simp]: "config (setAgentStatus a st r n s) = config s"
  by (simp add: setAgentStatus_def split: option.splits)

lemma wallet_setAgentStatus [simp]: "wallet (setAgentStatus a st r n s) = wallet s"
  by (simp add: setAgentStatus_def split: option.splits)

lemma status_setAgentStatus:
  "map_option a_status (agents (setAgentStatus aid st r now s) k) =
     (if k = aid \<and> agents s aid \<noteq> None then Some st else map_option a_status (agents s k))"
  by (simp add: setAgentStatus_def split: option.splits)

lemma present_setAgentStatus:
  "(agents (setAgentStatus aid st r now s) k = None) = (agents s k = None)"
  by (simp add: setAgentStatus_def split: option.splits)

lemma status_running_step:
  "(map_option a_status (agents (setAgentStatus aid Running r now t) k) = Some Running)
   = ((k = aid \<and> agents t k \<noteq> None) \<or> map_option a_status (agents t k) = Some Running)"
  by (simp add: status_setAgentStatus del: map_option_eq_Some not_None_eq) auto

lemma intervals_setAgentStatus [simp]: "intervals (setAgentStatus a st r n s) = intervals s"
  by (simp add: setAgentStatus_def split: option.splits)

lemma running_setAgentStatus [simp]: "running (setAgentStatus a st r n s) = running s"
  by (simp add: setAgentStatus_def split: option.splits)

lemma status_deployAgents:
  assumes "k \<in> set (map fst agentDefs)" and "agents s k \<noteq> None"
  shows "map_option a_status (agents (deployAgents now s) k) = Some Running"
proof -
  from assms(1) have "k = ''narrative'' \<or> k = ''hunter'' \<or> k = ''whale'' \<or> k = ''risk''
      \<or> k = ''executor'' \<or> k = ''backtest''"
    by (simp add: agentDefs_def)
  then show ?thesis
    using assms(2)
    by (elim disjE)
      (simp_all add: deployAgents_def status_running_step present_setAgentStatus
        del: map_option_eq_Some not_None_eq)
qed

lemma running_deployAgents [simp]: "running (deployAgents now s) = running s"
  by (simp add: deployAgents_def)

lemma config_deployAgents [simp]: "config (deployAgents now s) = config s"
  by (simp add: deployAgents_def)

lemma intervals_deployAgents [simp]: "intervals (deployAgents now s) = intervals s"
  by (simp add: deployAgents_def)

subsection \<open>Single statements on the tables\<close>

lemma find_update_position:
  "find (\<lambda>p. pos_id p = i) rows = Some pos \<Longrightarrow> pos_id (f pos) = i \<Longrightarrow>
   find (\<lambda>p. pos_id p = i) (map (\<lambda>p. if pos_id p = i then f p else p) rows) = Some (f pos)"
  by (induction rows) (auto split: if_splits)

lemma ids_update_position [simp]:
  "(\<And>p. pos_id (f p) = pos_id p) \<Longrightarrow>
   map pos_id (positions (update_position i f s)) = map pos_id (positions s)"
  by (simp add: update_position_def comp_def cong: map_cong)

lemma same_id_same_row:
  "distinct (map pos_id rows) \<Longrightarrow> p \<in> set rows \<Longrightarrow> q \<in> set rows \<Longrightarrow> pos_id p = pos_id q \<Longrightarrow> p = q"
  by (meson distinct_map inj_onD)

lemma decimals_update_position [simp]:
  "(\<And>p. token_decimals (f p) = token_decimals p) \<Longrightarrow>
   map token_decimals (positions (update_position i f s)) = map token_decimals (positions s)"
  by (simp add: update_position_def comp_def cong: map_cong)

lemma image_of_map_eq: "map f xs = ys \<Longrightarrow> f ` set xs = set ys"
  by (drule arg_cong [where f = set]) simp

lemma column_grows_by:
  "map f xs' = map f xs \<or> map f xs' = map f xs @ [c] \<Longrightarrow> f ` set xs' \<subseteq> insert c (f ` set xs)"
proof (elim disjE)
  assume "map f xs' = map f xs"
  then have "f ` set xs' = set (map f xs)" by (rule image_of_map_eq)
  then show ?thesis by auto
next
  assume "map f xs' = map f xs @ [c]"
  then have "f ` set xs' = set (map f xs @ [c])" by (rule image_of_map_eq)
  then show ?thesis by auto
qed

lemma tables_insert_position [simp]:
  "positions (insert_position a sy ep es ta d cp tx et sc na s)
     = positions s @ [\<lparr>pos_id = next_id s, token_address = a, symbol = sy,
            entry_price = ep, entry_sol = es, token_amount = ta,
            token_decimals = d, current_price = cp, pnl_pct = 0,
            status = OPEN, entry_tx = tx, exit_tx = None, entry_time = et,
            exit_time = None, score = sc, narrative = na\<rparr>]"
  "trade_history (insert_position a sy ep es ta d cp tx et sc na s) = trade_history s"
  "positions_seq (insert_position a sy ep es ta d cp tx et sc na s) = next_id s"
  by (simp_all add: insert_position_def next_id_def)

lemma next_id_setAgentStatus [simp]: "next_id (setAgentStatus a st r n s) = next_id s"
  by (simp add: next_id_def)

lemma next_id_insert_trade [simp]: "next_id (insert_trade t s) = next_id s"
  by (simp add: next_id_def insert_trade_def)

lemma tables_insert_trade [simp]:
  "positions (insert_trade t s) = positions s"
  "trade_history (insert_trade t s) = trade_history s @ [t]"
  "positions_seq (insert_trade t s) = positions_seq s"
  by (simp_all add: insert_trade_def)

lemma length_filter_map_le:
  "(\<And>x. x \<in> set xs \<Longrightarrow> Q (g x) \<Longrightarrow> Q x) \<Longrightarrow> length (filter Q (map g xs)) \<le> length (filter Q xs)"
  by (induction xs) (auto simp add: le_SucI)

subsection \<open>The two swaps\<close>

lemma executeBuy_Thrown:
  "jupiter w \<lparr>inputMint = SOL_MINT, outputMint = a, amount = \<lfloor>x * LAMPORTS_PER_SOL\<rfloor>,
              req_slippageBps = sl\<rparr> = Thrown e \<Longrightarrow>
   executeBuy w a x sl =
     \<lparr>r_success = False, r_txHash = None,
      r_error = Some (string_or (Some (e_message e)) (String_of_error e)),
      r_inputAmount = x, r_outputAmount = None, r_price = None, r_timestamp = swap_clock w\<rparr>"
  by (simp add: executeBuy_def Let_def)

lemma error_text_nonempty: "e_name e \<noteq> [] \<Longrightarrow> string_or (Some (e_message e)) (String_of_error e) \<noteq> []"
  by (simp add: string_or_def String_of_error_def)

lemma executeSell_success_iff:
  "r_success (executeSell w a x d sl) =
     (\<exists>h q. jupiter w \<lparr>inputMint = a, outputMint = SOL_MINT, amount = \<lfloor>x * 10 ^ d\<rfloor>,
                        req_slippageBps = sl\<rparr> = Confirmed h q)"
  by (simp add: executeSell_def Let_def split: swap_outcome.splits)

lemma executeSell_Confirmed:
  "jupiter w \<lparr>inputMint = a, outputMint = SOL_MINT, amount = \<lfloor>x * 10 ^ d\<rfloor>,
              req_slippageBps = sl\<rparr> = Confirmed h q \<Longrightarrow>
   executeSell w a x d sl =
     \<lparr>r_success = True, r_txHash = Some h, r_error = None, r_inputAmount = x,
      r_outputAmount = Some (q_outAmount q / LAMPORTS_PER_SOL),
      r_price = Some (q_outAmount q / LAMPORTS_PER_SOL / x), r_timestamp = swap_clock w\<rparr>"
  by (simp add: executeSell_def Let_def)

lemma executeSell_Thrown:
  "jupiter w \<lparr>inputMint = a, outputMint = SOL_MINT, amount = \<lfloor>x * 10 ^ d\<rfloor>,
              req_slippageBps = sl\<rparr> = Thrown e \<Longrightarrow>
   executeSell w a x d sl =
     \<lparr>r_success = False, r_txHash = None,
      r_error = Some (string_or (Some (e_message e)) (String_of_error e)),
      r_inputAmount = x, r_outputAmount = None, r_price = None, r_timestamp = swap_clock w\<rparr>"
  by (simp add: executeSell_def Let_def)

subsection \<open>Closing a position\<close>

lemma closePosition_sold:
  assumes "wallet s \<noteq> None"
    and "find (\<lambda>p. pos_id p = i) (positions s) = Some pos"
    and "status pos = OPEN"
    and "executeSell w (token_address pos) (token_amount pos) (token_decimals pos)
           (slippageBps (config s)) = result"
    and "r_success result"
  shows "closePosition w i reason s =
           update_position i
             (\<lambda>p. p\<lparr>status := reason, exit_tx := Some (string_or (r_txHash result) []),
                     exit_time := Some (clock w),
                     current_price := number_or (r_price result) (current_price pos),
                     pnl_pct := pnl_pct pos\<rparr>)
             (insert_trade
                \<lparr>th_token_address = token_address pos, th_symbol = symbol pos,
                 th_side = SELL, th_sol_amount = number_or (r_outputAmount result) 0,
                 th_token_amount = token_amount pos,
                 th_price = number_or (r_price result) 0,
                 th_tx_hash = string_or (r_txHash result) [],
                 th_success = 1,
                 th_error = string_or (r_error result) [],
                 th_timestamp = r_timestamp result\<rparr> s)"
  using assms by (auto simp add: closePosition_def Let_def)

lemma decimals_closePosition [simp]:
  "map token_decimals (positions (closePosition w i r s)) = map token_decimals (positions s)"
  by (simp add: closePosition_def Let_def insert_trade_def update_position_def comp_def
      split: option.splits cong: map_cong)

lemma decimals_manualSell [simp]:
  "map token_decimals (positions (snd (manualSell w i s))) = map token_decimals (positions s)"
  by (simp add: manualSell_def split: option.splits)

lemma manualSell_is_closePosition:
  "snd (manualSell w i s) = closePosition w i CLOSED s"
proof (cases "wallet s = None")
  case True
  then show ?thesis by (simp add: manualSell_def closePosition_def)
next
  case False
  show ?thesis
  proof (cases "find (\<lambda>p. pos_id p = i \<and> status p = OPEN) (positions s)")
    case (Some pos)
    with False show ?thesis by (auto simp add: manualSell_def)
  next
    case None
    then have n: "\<And>p. p \<in> set (positions s) \<Longrightarrow> pos_id p = i \<Longrightarrow> status p \<noteq> OPEN"
      by (auto simp add: find_None_iff)
    have "closePosition w i CLOSED s = s"
    proof (cases "find (\<lambda>p. pos_id p = i) (positions s)")
      case None
      then show ?thesis by (simp add: closePosition_def)
    next
      case (Some pos)
      then have "pos \<in> set (positions s)" "pos_id pos = i"
        by (auto simp add: find_Some_iff)
      with n have "status pos \<noteq> OPEN" by blast
      with Some show ?thesis by (simp add: closePosition_def)
    qed
    with None False show ?thesis by (auto simp add: manualSell_def)
  qed
qed

lemma positions_closePosition_cases:
  "positions (closePosition w i r s) = positions s
   \<or> (\<exists>f. (\<forall>p. token_address (f p) = token_address p \<and> status (f p) = r)
          \<and> positions (closePosition w i r s)
              = map (\<lambda>p. if pos_id p = i then f p else p) (positions s))"
proof (cases "wallet s = None")
  case True
  then show ?thesis by (simp add: closePosition_def)
next
  case w: False
  show ?thesis
  proof (cases "find (\<lambda>p. pos_id p = i) (positions s)")
    case None
    then show ?thesis by (simp add: closePosition_def)
  next
    case (Some pos)
    show ?thesis
    proof (cases "status pos = OPEN \<and> r_success (executeSell w (token_address pos) (token_amount pos)
                     (token_decimals pos) (slippageBps (config s)))")
      case False
      with Some w have "positions (closePosition w i r s) = positions s"
        by (auto simp add: closePosition_def Let_def)
      then show ?thesis ..
    next
      case True
      then have st: "status pos = OPEN"
        and ok: "r_success (executeSell w (token_address pos) (token_amount pos)
                     (token_decimals pos) (slippageBps (config s)))"
        by simp_all
      show ?thesis
        apply (rule disjI2)
        apply (subst closePosition_sold [OF w Some st refl ok])
        apply (rule exI [of _ "\<lambda>p. p\<lparr>status := r,
                     exit_tx := Some (string_or (r_txHash (executeSell w (token_address pos)
                        (token_amount pos) (token_decimals pos) (slippageBps (config s)))) []),
                     exit_time := Some (clock w),
                     current_price := number_or (r_price (executeSell w (token_address pos)
                        (token_amount pos) (token_decimals pos) (slippageBps (config s))))
                        (current_price pos),
                     pnl_pct := pnl_pct pos\<rparr>"])
        apply (simp add: update_position_def)
        done
    qed
  qed
qed

lemma config_closePosition [simp]: "config (closePosition w i r s) = config s"
  by (simp add: closePosition_def Let_def insert_trade_def update_position_def split: option.splits)

subsection \<open>Buying\<close>

lemma decimals_manualBuy:
  "map token_decimals (positions (snd (manualBuy w a x s))) = map token_decimals (positions s)
   \<or> map token_decimals (positions (snd (manualBuy w a x s))) = map token_decimals (positions s) @ [6]"
  by (simp add: manualBuy_def Let_def insert_trade_def insert_position_def next_id_def split: option.splits)

lemma decimals_executeTrade:
  "executeTrade w token sc narr s = Inr s' \<Longrightarrow>
   map token_decimals (positions s') = map token_decimals (positions s)
   \<or> map token_decimals (positions s') = map token_decimals (positions s) @ [6]"
  by (auto simp add: executeTrade_def Let_def insert_trade_def insert_position_def next_id_def
      split: option.splits sum.splits if_splits)

lemma manualBuy_writes:
  assumes w: "wallet s \<noteq> None" and l: "getTokenByAddress w a = Some token"
    and r: "executeBuy w a x (slippageBps (config s)) = result"
  shows "manualBuy w a x s =
     (Some result,
      (if r_success result
       then insert_position a (t_symbol token) (t_price token) x
              (number_or (r_outputAmount result) 0) 6 (t_price token)
              (string_or (r_txHash result) []) (clock w) 0 ''Manual''
       else (\<lambda>t. t))
       (insert_trade
          \<lparr>th_token_address = a, th_symbol = t_symbol token, th_side = BUY, th_sol_amount = x,
           th_token_amount = number_or (r_outputAmount result) 0,
           th_price = number_or (r_price result) 0,
           th_tx_hash = string_or (r_txHash result) [],
           th_success = (if r_success result then 1 else 0),
           th_error = string_or (r_error result) [],
           th_timestamp = r_timestamp result\<rparr> s))"
  using assms by (auto simp add: manualBuy_def Let_def)

lemma executeTrade_writes:
  assumes w: "wallet s \<noteq> None"
    and cnt: "int (openCount s) < maxConcurrentTrades (config s)"
    and nodup: "find (\<lambda>p. token_address p = t_address token \<and> status p = OPEN) (positions s) = None"
    and bal: "getBalance w = Inr balance"
    and sz: "\<not> tradeSize (config s) balance < 0.005"
    and r: "executeBuy w (t_address token) (tradeSize (config s) balance) (slippageBps (config s)) = result"
  shows "executeTrade w token sc narr s =
     Inr ((if r_success result
       then insert_position (t_address token) (t_symbol token) (t_price token)
              (tradeSize (config s) balance)
              (number_or (r_outputAmount result) 0) 6 (t_price token)
              (string_or (r_txHash result) []) (clock w) sc narr
       else (\<lambda>t. t))
       (insert_trade
          \<lparr>th_token_address = t_address token, th_symbol = t_symbol token, th_side = BUY,
           th_sol_amount = tradeSize (config s) balance,
           th_token_amount = number_or (r_outputAmount result) 0,
           th_price = number_or (r_price result) 0,
           th_tx_hash = string_or (r_txHash result) [],
           th_success = (if r_success result then 1 else 0),
           th_error = string_or (r_error result) [],
           th_timestamp = r_timestamp result\<rparr>
          (setAgentStatus ''executor'' Running None (clock w) s)))"
  using assms by (auto simp add: executeTrade_def Let_def)

lemma executeTrade_cases:
  assumes "executeTrade w token sc narr s = Inr s'"
  shows "positions s' = positions s
       \<or> (int (openCount s) < maxConcurrentTrades (config s)
           \<and> find (\<lambda>p. token_address p = t_address token \<and> status p = OPEN) (positions s) = None
           \<and> (\<exists>p. positions s' = positions s @ [p] \<and> token_address p = t_address token
                  \<and> status p = OPEN))"
  using assms
  by (auto simp add: executeTrade_def Let_def split: if_splits option.splits sum.splits)

lemma config_executeTrade: "executeTrade w token sc narr s = Inr s' \<Longrightarrow> config s' = config s"
  by (auto simp add: executeTrade_def Let_def insert_trade_def insert_position_def next_id_def
      split: if_splits option.splits sum.splits)

subsection \<open>The risk manager\<close>

lemma riskCheck_cases:
  "riskCheck w pos s = s
   \<or> riskCheck w pos s = closePosition w (pos_id pos) STOPPED s
   \<or> riskCheck w pos s = closePosition w (pos_id pos) TP_HIT s"
  by (simp add: riskCheck_def split: option.splits)

lemma decimals_riskCheck [simp]:
  "map token_decimals (positions (riskCheck w q s)) = map token_decimals (positions s)"
  by (simp add: riskCheck_def split: option.splits)

lemma decimals_riskLoop [simp]:
  "map token_decimals (positions (riskLoop ws i ps s)) = map token_decimals (positions s)"
  by (induction ps arbitrary: i s) simp_all

lemma decimals_runRiskManager [simp]:
  "map token_decimals (positions (runRiskManager ws w s)) = map token_decimals (positions s)"
  by (simp add: runRiskManager_def Let_def split: sum.splits)

lemma config_riskCheck [simp]: "config (riskCheck w q s) = config s"
  by (simp add: riskCheck_def split: option.splits)

lemma config_riskLoop [simp]: "config (riskLoop ws i ps s) = config s"
  by (induction ps arbitrary: i s) simp_all

lemma config_runRiskManager [simp]: "config (runRiskManager ws w s) = config s"
  by (simp add: runRiskManager_def Let_def split: sum.splits)

subsection \<open>The price updater\<close>

lemma ids_priceUpdate [simp]:
  "map pos_id (positions (priceUpdate w q s)) = map pos_id (positions s)"
  by (simp add: priceUpdate_def Let_def split: option.splits)

lemma ids_priceLoop [simp]:
  "map pos_id (positions (priceLoop ws i ps s)) = map pos_id (positions s)"
  by (induction ps arbitrary: i s) simp_all





lemma decimals_priceUpdate [simp]:
  "map token_decimals (positions (priceUpdate w q s)) = map token_decimals (positions s)"
  by (simp add: priceUpdate_def Let_def split: option.splits)

lemma decimals_priceLoop [simp]:
  "map token_decimals (positions (priceLoop ws i ps s)) = map token_decimals (positions s)"
  by (induction ps arbitrary: i s) simp_all

lemma decimals_runPriceUpdater [simp]:
  "map token_decimals (positions (runPriceUpdater ws s)) = map token_decimals (positions s)"
  by (simp add: runPriceUpdater_def)

lemma config_priceUpdate [simp]: "config (priceUpdate w q s) = config s"
  by (simp add: priceUpdate_def update_position_def Let_def split: option.splits)

lemma config_priceLoop [simp]: "config (priceLoop ws i ps s) = config s"
  by (induction ps arbitrary: i s) simp_all

subsection \<open>Open rows\<close>

lemma openCount_openRows: "openCount s = openRows (\<lambda>a. True) s"
  by (simp add: openCount_def openRows_def)

lemma openRows_closePosition:
  assumes "r \<noteq> OPEN"
  shows "openRows A (closePosition w i r s) \<le> openRows A s"
  using positions_closePosition_cases [of w i r s]
proof
  assume "positions (closePosition w i r s) = positions s"
  then show ?thesis by (simp add: openRows_def)
next
  assume "\<exists>f. (\<forall>p. token_address (f p) = token_address p \<and> status (f p) = r)
          \<and> positions (closePosition w i r s)
              = map (\<lambda>p. if pos_id p = i then f p else p) (positions s)"
  then obtain f where f: "\<And>p. token_address (f p) = token_address p" "\<And>p. status (f p) = r"
    and e: "positions (closePosition w i r s) = map (\<lambda>p. if pos_id p = i then f p else p) (positions s)"
    by blast
  show ?thesis
    unfolding openRows_def e using assms
    by (intro length_filter_map_le) (auto simp add: f split: if_splits)
qed

lemma openRows_setAgentStatus [simp]: "openRows A (setAgentStatus a st r n s) = openRows A s"
  by (simp add: openRows_def)

lemma openRows_riskCheck: "openRows A (riskCheck w q s) \<le> openRows A s"
  using riskCheck_cases [of w q s] openRows_closePosition [of STOPPED A w "pos_id q" s]
    openRows_closePosition [of TP_HIT A w "pos_id q" s]
  by auto

lemma openRows_riskLoop: "openRows A (riskLoop ws i ps s) \<le> openRows A s"
proof (induction ps arbitrary: i s)
  case Nil
  then show ?case by simp
next
  case (Cons q ps)
  have "openRows A (riskLoop ws (Suc i) ps (riskCheck (ws i) q s)) \<le> openRows A (riskCheck (ws i) q s)"
    by (rule Cons.IH)
  also have "\<dots> \<le> openRows A s" by (rule openRows_riskCheck)
  finally show ?case by simp
qed

lemma openRows_runRiskManager: "openRows A (runRiskManager ws w s) \<le> openRows A s"
  using openRows_riskLoop [of A ws 0 "filter (\<lambda>p. status p = OPEN) (positions s)"
          "setAgentStatus ''risk'' Running None (clock w) s"]
  by (simp add: runRiskManager_def Let_def split: sum.splits)

lemma openRows_manualSell: "openRows A (snd (manualSell w i s)) \<le> openRows A s"
  using openRows_closePosition [of CLOSED A w i s] by (simp add: manualSell_is_closePosition)

lemma openRows_priceUpdate [simp]: "openRows A (priceUpdate w q s) = openRows A s"
proof -
  have h: "(\<lambda>p. A (token_address p) \<and> status p = OPEN)
          \<circ> (\<lambda>p. if pos_id p = i then p\<lparr>current_price := c, pnl_pct := d\<rparr> else p)
        = (\<lambda>p. A (token_address p) \<and> status p = OPEN)" for i c d
    by (auto simp add: fun_eq_iff)
  show ?thesis
    by (simp add: openRows_def priceUpdate_def update_position_def Let_def h split: option.splits)
qed

lemma openRows_priceLoop [simp]: "openRows A (priceLoop ws i ps s) = openRows A s"
  by (induction ps arbitrary: i s) simp_all

lemma openRows_runPriceUpdater [simp]: "openRows A (runPriceUpdater ws s) = openRows A s"
  by (simp add: runPriceUpdater_def)

lemma openRows_stop [simp]: "openRows A (stop now s) = openRows A s"
  by (simp add: openRows_def stop_def)

lemma find_None_openRows:
  "find (\<lambda>p. token_address p = a \<and> status p = OPEN) (positions s) = None \<Longrightarrow>
   openRows (\<lambda>b. b = a) s = 0"
  by (simp add: openRows_def find_None_iff filter_empty_conv)

lemma openRows_append_open:
  "positions s' = positions s @ [p] \<Longrightarrow> status p = OPEN \<Longrightarrow>
   openRows A s' = openRows A s + (if A (token_address p) then 1 else 0)"
  by (simp add: openRows_def)

subsection \<open>Steps and runs\<close>

lemma decimals_step:
  "set (map token_decimals (positions (step e s))) \<subseteq> insert 6 (set (map token_decimals (positions s)))"
proof (cases e)
  case (ExecuteTrade w token sc narr)
  show ?thesis
  proof (cases "executeTrade w token sc narr s")
    case (Inl err)
    with ExecuteTrade show ?thesis by auto
  next
    case (Inr s')
    from column_grows_by [OF decimals_executeTrade [OF Inr]] ExecuteTrade Inr show ?thesis
      by simp
  qed
next
  case (ManualBuy w a x)
  with column_grows_by [OF decimals_manualBuy [of w a x s]] show ?thesis by simp
next
  case (ManualSell w i)
  have "token_decimals ` set (positions (snd (manualSell w i s))) = set (map token_decimals (positions s))"
    by (rule image_of_map_eq) simp
  with ManualSell show ?thesis by auto
next
  case (RiskManagerTick ws w)
  have "token_decimals ` set (positions (runRiskManager ws w s)) = set (map token_decimals (positions s))"
    by (rule image_of_map_eq) simp
  with RiskManagerTick show ?thesis by auto
next
  case (PriceUpdaterTick ws)
  have "token_decimals ` set (positions (runPriceUpdater ws s)) = set (map token_decimals (positions s))"
    by (rule image_of_map_eq) simp
  with PriceUpdaterTick show ?thesis by auto
next
  case (Stop now)
  then show ?thesis by (auto simp add: stop_def)
qed

lemma decimals_run:
  "set (map token_decimals (positions (run evs s))) \<subseteq> insert 6 (set (map token_decimals (positions s)))"
proof (induction evs arbitrary: s)
  case Nil
  then show ?case by (auto simp add: run_def)
next
  case (Cons e evs)
  have "set (map token_decimals (positions (run evs (step e s))))
        \<subseteq> insert 6 (set (map token_decimals (positions (step e s))))"
    by (rule Cons.IH)
  also have "\<dots> \<subseteq> insert 6 (insert 6 (set (map token_decimals (positions s))))"
    using decimals_step [of e s] by (rule insert_mono)
  finally show ?case by (simp add: run_def)
qed

lemma config_step: "\<not> isManualBuy e \<Longrightarrow> config (step e s) = config s"
  by (cases e)
    (auto simp add: isManualBuy_def config_executeTrade manualSell_is_closePosition
      runPriceUpdater_def stop_def split: sum.splits)

lemma openCount_step:
  assumes "\<not> isManualBuy e" and "int (openCount s) \<le> maxConcurrentTrades (config s)"
  shows "int (openCount (step e s)) \<le> maxConcurrentTrades (config s)"
proof (cases e)
  case (ExecuteTrade w token sc narr)
  show ?thesis
  proof (cases "executeTrade w token sc narr s")
    case (Inl err)
    with ExecuteTrade assms show ?thesis by simp
  next
    case (Inr s')
    from executeTrade_cases [OF Inr] show ?thesis
    proof
      assume "positions s' = positions s"
      with ExecuteTrade Inr assms show ?thesis by (simp add: openCount_def)
    next
      assume "int (openCount s) < maxConcurrentTrades (config s)
           \<and> find (\<lambda>p. token_address p = t_address token \<and> status p = OPEN) (positions s) = None
           \<and> (\<exists>p. positions s' = positions s @ [p] \<and> token_address p = t_address token
                  \<and> status p = OPEN)"
      then obtain p where lt: "int (openCount s) < maxConcurrentTrades (config s)"
        and p: "positions s' = positions s @ [p]" "status p = OPEN"
        by blast
      from openRows_append_open [OF p, of "\<lambda>a. True"] have "openCount s' = Suc (openCount s)"
        by (simp add: openCount_openRows)
      with lt ExecuteTrade Inr show ?thesis by simp
    qed
  qed
next
  case (ManualBuy w a x)
  with assms show ?thesis by (simp add: isManualBuy_def)
next
  case (ManualSell w i)
  with assms openRows_manualSell [of "\<lambda>a. True" w i s] show ?thesis
    by (simp add: openCount_openRows)
next
  case (RiskManagerTick ws w)
  with assms openRows_runRiskManager [of "\<lambda>a. True" ws w s] show ?thesis
    by (simp add: openCount_openRows)
next
  case (PriceUpdaterTick ws)
  with assms show ?thesis by (simp add: openCount_openRows)
next
  case (Stop now)
  with assms show ?thesis by (simp add: openCount_openRows)
qed

lemma openFor_step:
  assumes "\<not> isManualBuy e" and "openRows (\<lambda>b. b = a) s \<le> 1"
  shows "openRows (\<lambda>b. b = a) (step e s) \<le> 1"
proof (cases e)
  case (ExecuteTrade w token sc narr)
  show ?thesis
  proof (cases "executeTrade w token sc narr s")
    case (Inl err)
    with ExecuteTrade assms show ?thesis by simp
  next
    case (Inr s')
    from executeTrade_cases [OF Inr] show ?thesis
    proof
      assume "positions s' = positions s"
      with ExecuteTrade Inr assms show ?thesis by (simp add: openRows_def)
    next
      assume "int (openCount s) < maxConcurrentTrades (config s)
           \<and> find (\<lambda>p. token_address p = t_address token \<and> status p = OPEN) (positions s) = None
           \<and> (\<exists>p. positions s' = positions s @ [p] \<and> token_address p = t_address token
                  \<and> status p = OPEN)"
      then obtain p where n: "find (\<lambda>p. token_address p = t_address token \<and> status p = OPEN) (positions s) = None"
        and p: "positions s' = positions s @ [p]" "status p = OPEN"
        and ad: "token_address p = t_address token"
        by blast
      have "openRows (\<lambda>b. b = a) s' \<le> 1"
      proof (cases "t_address token = a")
        case True
        with find_None_openRows [OF n] have "openRows (\<lambda>b. b = a) s = 0" by simp
        with openRows_append_open [OF p, of "\<lambda>b. b = a"] show ?thesis by simp
      next
        case False
        with openRows_append_open [OF p, of "\<lambda>b. b = a"] ad assms show ?thesis by simp
      qed
      with ExecuteTrade Inr show ?thesis by simp
    qed
  qed
next
  case (ManualBuy w a x)
  with assms show ?thesis by (simp add: isManualBuy_def)
next
  case (ManualSell w i)
  with assms openRows_manualSell [of "\<lambda>b. b = a" w i s] show ?thesis
    by simp
next
  case (RiskManagerTick ws w)
  with assms openRows_runRiskManager [of "\<lambda>b. b = a" ws w s] show ?thesis
    by simp
next
  case (PriceUpdaterTick ws)
  with assms show ?thesis by simp
next
  case (Stop now)
  with assms show ?thesis by simp
qed

subsection \<open>Start\<close>

lemma start_refuses:
  "running s \<or> openrouterKey (config s) = [] \<or> rpcUrl (config s) = [] \<Longrightarrow>
   start createWallet w narr hunt s = s"
  by (auto simp add: start_def)

lemma start_wallet_failure:
  assumes nr: "\<not> running s" and wk: "walletKey (config s) \<noteq> []"
    and f: "(\<exists>e. createWallet (walletKey (config s)) = Inl e) \<or> (\<exists>e. getBalance w = Inl e)"
  shows "\<not> running (start createWallet w narr hunt s)
       \<and> intervals (start createWallet w narr hunt s) = intervals s
       \<and> agents (start createWallet w narr hunt s) = agents s"
proof (cases "openrouterKey (config s) = [] \<or> rpcUrl (config s) = []")
  case True
  then have "start createWallet w narr hunt s = s" by (simp add: start_refuses)
  with nr show ?thesis by simp
next
  case False
  show ?thesis
  proof (cases "createWallet (walletKey (config s))")
    case (Inl e)
    with False nr wk show ?thesis by (simp add: start_def Let_def)
  next
    case (Inr k)
    with f obtain e where "getBalance w = Inl e" by auto
    with Inr False nr wk show ?thesis by (simp add: start_def Let_def)
  qed
qed

lemma start_launches:
  assumes nr: "\<not> running s" and k: "openrouterKey (config s) \<noteq> []" and u: "rpcUrl (config s) \<noteq> []"
    and ok: "walletKey (config s) = []
            \<or> (\<exists>k b. createWallet (walletKey (config s)) = Inr k \<and> getBalance w = Inr b)"
  shows "start createWallet w narr hunt s =
           launch w narr hunt
             (s\<lparr>llmConfig := Some \<lparr>apiKey = openrouterKey (config s),
                                    llm_model = string_or (Some (model (config s)))
                                                  ''deepseek/deepseek-chat''\<rparr>,
                 connection := Some (rpcUrl (config s)),
                 wallet := (case createWallet (walletKey (config s)) of
                              Inr k \<Rightarrow> if walletKey (config s) = [] then wallet s else Some k
                            | Inl e \<Rightarrow> wallet s)\<rparr>)"
proof (cases "walletKey (config s) = []")
  case True
  have "s\<lparr>llmConfig := Some \<lparr>apiKey = openrouterKey (config s),
                                    llm_model = string_or (Some (model (config s)))
                                                  ''deepseek/deepseek-chat''\<rparr>,
                 connection := Some (rpcUrl (config s)),
                 wallet := (case createWallet (walletKey (config s)) of
                              Inr k \<Rightarrow> if walletKey (config s) = [] then wallet s else Some k
                            | Inl e \<Rightarrow> wallet s)\<rparr>
        = s\<lparr>llmConfig := Some \<lparr>apiKey = openrouterKey (config s),
                                    llm_model = string_or (Some (model (config s)))
                                                  ''deepseek/deepseek-chat''\<rparr>,
                 connection := Some (rpcUrl (config s))\<rparr>"
    using True by (simp split: sum.splits)
  then show ?thesis
    using True nr k u by (simp add: start_def Let_def)
next
  case False
  with ok obtain kp b where "createWallet (walletKey (config s)) = Inr kp" "getBalance w = Inr b"
    by auto
  with False nr k u show ?thesis by (simp add: start_def Let_def)
qed

subsection \<open>The concrete values\<close>

lemma tradeSize_cfg0: "tradeSize cfg0 1000000000 = 0.05"
  by (simp add: tradeSize_def cfg0_def LAMPORTS_PER_SOL_def)

lemma positions_holdingA: "positions holdingA = [positionA]"
  by (simp add: holdingA_def positionA_def manualBuy_def started_def Swarm_def world_ok_def
      tokenA_def executeBuy_def insert_trade_def insert_position_def next_id_def number_or_def string_or_def
      nat_or_def Let_def)

lemma wallet_holdingA: "wallet holdingA = Some ''5Kd3''"
  by (simp add: holdingA_def manualBuy_def started_def Swarm_def world_ok_def
      tokenA_def executeBuy_def insert_trade_def insert_position_def next_id_def Let_def)

lemma config_holdingA: "config holdingA = cfg0"
  by (simp add: holdingA_def manualBuy_def started_def Swarm_def world_ok_def
      tokenA_def executeBuy_def insert_trade_def insert_position_def next_id_def Let_def)

lemma sell_positionA:
  "executeSell world_ok ''A'' 100 6 500 =
     \<lparr>r_success = True, r_txHash = Some ''tx1'', r_error = None, r_inputAmount = 100,
      r_outputAmount = Some 0.1, r_price = Some 0.001, r_timestamp = 10\<rparr>"
  by (simp add: executeSell_def world_ok_def LAMPORTS_PER_SOL_def Let_def)

lemma seq_holdingA: "positions_seq holdingA = 1"
  by (simp add: holdingA_def manualBuy_def started_def Swarm_def world_ok_def
      tokenA_def executeBuy_def insert_trade_def insert_position_def next_id_def Let_def)

lemma running_holdingA: "running holdingA"
  by (simp add: holdingA_def manualBuy_def started_def Swarm_def world_ok_def
      tokenA_def executeBuy_def insert_trade_def insert_position_def next_id_def Let_def)

lemma pos_id_positionA: "pos_id positionA = 1"
  by (simp add: positionA_def)

lemma positions_holdingAB: "positions holdingAB = [positionA, positionB]"
  by (simp add: holdingAB_def positionB_def pos_id_positionA manualBuy_def wallet_holdingA config_holdingA
      positions_holdingA seq_holdingA world_ok_def tokenB_def
      executeBuy_def insert_trade_def insert_position_def next_id_def number_or_def string_or_def
      nat_or_def Let_def)

lemma running_holdingAB: "running holdingAB"
  by (simp add: holdingAB_def manualBuy_def wallet_holdingA running_holdingA world_ok_def
      executeBuy_def insert_trade_def insert_position_def next_id_def Let_def)

lemma executeTrade_started_A:
  "executeTrade world_ok tokenA 85 ''AI agents'' started = Inr s' \<Longrightarrow>
   positions s' = [positionA\<lparr>score := 85, narrative := ''AI agents''\<rparr>]
   \<and> positions_seq s' = 1 \<and> wallet s' = Some ''5Kd3'' \<and> config s' = cfg0"
  by (auto simp add: executeTrade_def started_def Swarm_def openCount_def cfg0_def tokenA_def
      world_ok_def tradeSize_def LAMPORTS_PER_SOL_def executeBuy_def insert_trade_def
      insert_position_def next_id_def number_or_def string_or_def nat_or_def Let_def positionA_def
      split: if_splits)

lemma executeTrade_started_A_returns:
  "\<exists>s'. executeTrade world_ok tokenA 85 ''AI agents'' started = Inr s'"
  by (simp add: executeTrade_def started_def Swarm_def openCount_def cfg0_def tokenA_def
      world_ok_def tradeSize_def LAMPORTS_PER_SOL_def executeBuy_def Let_def)

lemma positions_run_A_B:
  "positions (run [ExecuteTrade world_ok tokenA 85 ''AI agents'', ManualBuy world_ok ''B'' 0.05]
               started)
   = [positionA\<lparr>score := 85, narrative := ''AI agents''\<rparr>, positionB]"
proof -
  from executeTrade_started_A_returns obtain s'
    where s': "executeTrade world_ok tokenA 85 ''AI agents'' started = Inr s'" ..
  from executeTrade_started_A [OF s'] s' show ?thesis
    by (simp add: run_def manualBuy_def world_ok_def tokenB_def executeBuy_def insert_trade_def
        insert_position_def next_id_def number_or_def string_or_def nat_or_def Let_def positionB_def
        pos_id_positionA)
qed

lemma executeTrade_second_refused:
  assumes "executeTrade world_ok tokenA 85 ''AI agents'' started = Inr s'"
  shows "executeTrade world_ok tokenB 90 ''AI agents'' s' = Inr s'"
  using executeTrade_started_A [OF assms]
  by (simp add: executeTrade_def openCount_def cfg0_def positionA_def)

lemma executeTrade_started3_A:
  "executeTrade world_ok tokenA 85 ''AI agents'' started3 = Inr s' \<Longrightarrow>
   positions s' = [positionA\<lparr>score := 85, narrative := ''AI agents''\<rparr>]
   \<and> wallet s' = Some ''5Kd3'' \<and> config s' = cfg0\<lparr>maxConcurrentTrades := 3\<rparr>"
  by (auto simp add: executeTrade_def started3_def started_def Swarm_def openCount_def cfg0_def
      tokenA_def world_ok_def tradeSize_def LAMPORTS_PER_SOL_def executeBuy_def insert_trade_def
      insert_position_def next_id_def number_or_def string_or_def nat_or_def Let_def positionA_def
      split: if_splits)

lemma executeTrade_started3_A_returns:
  "\<exists>s'. executeTrade world_ok tokenA 85 ''AI agents'' started3 = Inr s'"
  by (simp add: executeTrade_def started3_def started_def Swarm_def openCount_def cfg0_def
      tokenA_def world_ok_def tradeSize_def LAMPORTS_PER_SOL_def executeBuy_def Let_def)

lemma executeTrade_started3_A_again:
  assumes "executeTrade world_ok tokenA 85 ''AI agents'' started3 = Inr s'"
  shows "executeTrade world_ok tokenA 95 ''AI agents'' s' = Inr s'"
  using executeTrade_started3_A [OF assms]
  by (simp add: executeTrade_def openCount_def cfg0_def positionA_def tokenA_def)

lemma run_two_manual_buys:
  "run [ManualBuy world_ok ''A'' 0.05, ManualBuy world_ok ''B'' 0.05] started = holdingAB"
  by (simp only: run_def fold.simps step.simps o_apply id_apply holdingAB_def holdingA_def)

lemma positions_two_buys_of_A:
  "positions (snd (manualBuy world_ok ''A'' 0.05 holdingA)) = [positionA, positionA\<lparr>pos_id := 2\<rparr>]"
  by (simp add: positionA_def manualBuy_def wallet_holdingA config_holdingA
      positions_holdingA seq_holdingA world_ok_def tokenA_def
      executeBuy_def insert_trade_def insert_position_def next_id_def number_or_def string_or_def
      nat_or_def Let_def)

lemma clocks_world_ok: "clock world_ok = 11" "swap_clock world_ok = 10"
  by (simp_all add: world_ok_def)

lemma positions_closedA:
  "positions closedA = [positionA\<lparr>status := TP_HIT, exit_tx := Some ''tx1'', exit_time := Some 11,
                                   current_price := 0.001\<rparr>]"
  by (simp add: closedA_def closePosition_def positions_holdingA wallet_holdingA config_holdingA
      positionA_def cfg0_def sell_positionA insert_trade_def update_position_def
      number_or_def string_or_def clocks_world_ok Let_def)

lemma positions_droppedA:
  "positions droppedA = [positionA\<lparr>current_price := 1.38, pnl_pct := - 31\<rparr>]"
  by (simp add: droppedA_def runPriceUpdater_def running_holdingA positions_holdingA
      priceUpdate_def update_position_def world_down_def positionA_def tokenA_def Let_def)

lemma wallet_droppedA: "wallet droppedA = Some ''5Kd3''"
proof -
  have "wallet (priceLoop ws i ps s) = wallet s" for ws i ps s
    by (induction ps arbitrary: i s)
      (simp_all add: priceUpdate_def update_position_def Let_def split: option.splits)
  then show ?thesis
    by (simp add: droppedA_def runPriceUpdater_def wallet_holdingA)
qed

lemma config_droppedA: "config droppedA = cfg0"
  by (simp add: droppedA_def runPriceUpdater_def config_holdingA)

subsection \<open>Row ids\<close>

lemma fold_max_upper: "a \<le> fold max xs (a :: nat) \<and> (\<forall>x \<in> set xs. x \<le> fold max xs a)"
proof (induction xs arbitrary: a)
  case Nil
  then show ?case by simp
next
  case (Cons y ys)
  from Cons.IH [of "max y a"] show ?case by auto
qed

lemma ids_below_next_id: "p \<in> set (positions s) \<Longrightarrow> pos_id p < next_id s"
  using fold_max_upper [of 0 "map pos_id (positions s)"]
  by (auto simp add: next_id_def less_Suc_eq_le max.coboundedI2)

lemma distinct_ids_insert_position:
  "distinct (map pos_id (positions s)) \<Longrightarrow>
   distinct (map pos_id (positions (insert_position a sy ep es ta d cp tx et sc na s)))"
proof -
  assume d: "distinct (map pos_id (positions s))"
  have "next_id s \<notin> pos_id ` set (positions s)"
    using ids_below_next_id [of _ s] by fastforce
  with d show ?thesis by simp
qed

lemma ids_closePosition [simp]:
  "map pos_id (positions (closePosition w i r s)) = map pos_id (positions s)"
  by (simp add: closePosition_def Let_def split: option.splits)

lemma ids_riskCheck [simp]: "map pos_id (positions (riskCheck w q s)) = map pos_id (positions s)"
  by (simp add: riskCheck_def split: option.splits)

lemma ids_riskLoop [simp]:
  "map pos_id (positions (riskLoop ws i ps s)) = map pos_id (positions s)"
  by (induction ps arbitrary: i s) simp_all

lemma ids_runRiskManager [simp]:
  "map pos_id (positions (runRiskManager ws w s)) = map pos_id (positions s)"
  by (simp add: runRiskManager_def Let_def split: sum.splits)

lemma distinct_ids_executeTrade:
  "executeTrade w token sc narr s = Inr s' \<Longrightarrow> distinct (map pos_id (positions s)) \<Longrightarrow>
   distinct (map pos_id (positions s'))"
  using distinct_ids_insert_position
  by (auto simp add: executeTrade_def Let_def split: if_splits option.splits sum.splits
      simp del: tables_insert_position)

lemma distinct_ids_manualBuy:
  "distinct (map pos_id (positions s)) \<Longrightarrow>
   distinct (map pos_id (positions (snd (manualBuy w a x s))))"
  using distinct_ids_insert_position
  by (auto simp add: manualBuy_def Let_def split: option.splits simp del: tables_insert_position)

lemma distinct_ids_step:
  "distinct (map pos_id (positions s)) \<Longrightarrow> distinct (map pos_id (positions (step e s)))"
proof (cases e)
  case (ExecuteTrade w token sc narr)
  assume d: "distinct (map pos_id (positions s))"
  show ?thesis
  proof (cases "executeTrade w token sc narr s")
    case (Inl err)
    with ExecuteTrade d show ?thesis by simp
  next
    case (Inr s')
    with ExecuteTrade distinct_ids_executeTrade [OF Inr d] show ?thesis by simp
  qed
next
  case (ManualBuy w a x)
  assume "distinct (map pos_id (positions s))"
  with ManualBuy show ?thesis by (simp add: distinct_ids_manualBuy)
next
  case (ManualSell w i)
  assume "distinct (map pos_id (positions s))"
  with ManualSell show ?thesis by (simp add: manualSell_is_closePosition)
next
  case (RiskManagerTick ws w)
  assume "distinct (map pos_id (positions s))"
  with RiskManagerTick show ?thesis by simp
next
  case (PriceUpdaterTick ws)
  assume "distinct (map pos_id (positions s))"
  with PriceUpdaterTick show ?thesis by (simp add: runPriceUpdater_def)
next
  case (Stop now)
  assume "distinct (map pos_id (positions s))"
  with Stop show ?thesis by (simp add: stop_def)
qed

subsection \<open>The risk manager on the open rows\<close>

lemma pos_id_closed_row [simp]: "pos_id (closed_row r w res q) = pos_id q"
  by (simp add: closed_row_def)

lemma pos_id_riskRow [simp]: "pos_id (riskRow cfg w q) = pos_id q"
  by (simp add: riskRow_def Let_def split: option.splits)

lemma find_by_id:
  "distinct (map pos_id rows) \<Longrightarrow> p \<in> set rows \<Longrightarrow> find (\<lambda>q. pos_id q = pos_id p) rows = Some p"
  by (induction rows) (auto simp add: image_iff)

lemma filter_by_id:
  "distinct (map pos_id rows) \<Longrightarrow> p \<in> set rows \<Longrightarrow> filter (\<lambda>q. pos_id q = pos_id p) rows = [p]"
  by (induction rows) (auto simp add: image_iff filter_empty_conv)

lemma map_replace_self:
  "distinct (map pos_id rows) \<Longrightarrow> q \<in> set rows \<Longrightarrow>
   map (\<lambda>r. if pos_id r = pos_id q then q else r) rows = rows"
  by (rule map_idI) (auto dest: same_id_same_row)

lemma wallet_closePosition [simp]: "wallet (closePosition w i r s) = wallet s"
  by (simp add: closePosition_def Let_def insert_trade_def update_position_def split: option.splits)

lemma wallet_riskCheck [simp]: "wallet (riskCheck w q s) = wallet s"
  by (simp add: riskCheck_def split: option.splits)

lemma closePosition_without_wallet: "wallet s = None \<Longrightarrow> closePosition w i r s = s"
  by (simp add: closePosition_def)

lemma closePosition_open_row:
  assumes w: "wallet s \<noteq> None"
    and d: "distinct (map pos_id (positions s))"
    and q: "q \<in> set (positions s)"
    and st: "status q = OPEN"
  shows "positions (closePosition w (pos_id q) reason s)
           = map (\<lambda>r. if pos_id r = pos_id q
                       then closed_row reason w
                              (executeSell w (token_address q) (token_amount q) (token_decimals q)
                                 (slippageBps (config s))) q
                       else r) (positions s)"
    and "\<exists>t. trade_history (closePosition w (pos_id q) reason s) = trade_history s @ [t]
            \<and> th_side t = SELL"
proof -
  have f: "find (\<lambda>r. pos_id r = pos_id q) (positions s) = Some q"
    by (rule find_by_id [OF d q])
  let ?res = "executeSell w (token_address q) (token_amount q) (token_decimals q)
                (slippageBps (config s))"
  show "positions (closePosition w (pos_id q) reason s)
           = map (\<lambda>r. if pos_id r = pos_id q then closed_row reason w ?res q else r) (positions s)"
  proof (cases "r_success ?res")
    case True
    have "positions (closePosition w (pos_id q) reason s)
        = map (\<lambda>r. if pos_id r = pos_id q
                    then r\<lparr>status := reason, exit_tx := Some (string_or (r_txHash ?res) []),
                           exit_time := Some (clock w),
                           current_price := number_or (r_price ?res) (current_price q),
                           pnl_pct := pnl_pct q\<rparr>
                    else r) (positions s)"
      using w f st True by (auto simp add: closePosition_def Let_def update_position_def)
    also have "\<dots> = map (\<lambda>r. if pos_id r = pos_id q then closed_row reason w ?res q else r)
                        (positions s)"
    proof (rule map_cong [OF refl])
      fix r assume r: "r \<in> set (positions s)"
      show "(if pos_id r = pos_id q
                    then r\<lparr>status := reason, exit_tx := Some (string_or (r_txHash ?res) []),
                           exit_time := Some (clock w),
                           current_price := number_or (r_price ?res) (current_price q),
                           pnl_pct := pnl_pct q\<rparr>
                    else r)
           = (if pos_id r = pos_id q then closed_row reason w ?res q else r)"
        using same_id_same_row [OF d r q] True by (auto simp add: closed_row_def)
    qed
    finally show ?thesis .
  next
    case False
    then have "positions (closePosition w (pos_id q) reason s) = positions s"
      using w f st by (auto simp add: closePosition_def Let_def)
    moreover have "closed_row reason w ?res q = q"
      using False by (simp add: closed_row_def)
    ultimately show ?thesis
      using map_replace_self [OF d q] by (simp cong: if_cong)
  qed
  show "\<exists>t. trade_history (closePosition w (pos_id q) reason s) = trade_history s @ [t]
            \<and> th_side t = SELL"
    using w f st by (auto simp add: closePosition_def Let_def update_position_def)
qed

lemma riskCheck_open_row:
  assumes w: "wallet s \<noteq> None"
    and d: "distinct (map pos_id (positions s))"
    and q: "q \<in> set (positions s)"
    and st: "status q = OPEN"
  shows "positions (riskCheck w q s)
           = map (\<lambda>r. if pos_id r = pos_id q then riskRow (config s) w q else r) (positions s)"
    and "\<exists>new. trade_history (riskCheck w q s) = trade_history s @ new
            \<and> length new = (if riskFires (config s) w q then 1 else 0)
            \<and> (\<forall>t \<in> set new. th_side t = SELL)"
proof -
  note c = closePosition_open_row [OF w d q st]
  note same = map_replace_self [OF d q]
  have keep: "riskCheck w q s = s \<Longrightarrow> riskRow (config s) w q = q \<Longrightarrow>
      positions (riskCheck w q s)
           = map (\<lambda>r. if pos_id r = pos_id q then riskRow (config s) w q else r) (positions s)"
    using same by (simp cong: if_cong)
  have close: "riskCheck w q s = closePosition w (pos_id q) reason s \<Longrightarrow>
      riskRow (config s) w q
        = closed_row reason w (executeSell w (token_address q) (token_amount q) (token_decimals q)
                                 (slippageBps (config s))) q \<Longrightarrow>
      positions (riskCheck w q s)
           = map (\<lambda>r. if pos_id r = pos_id q then riskRow (config s) w q else r) (positions s)"
    for reason
    using c(1) [of w reason] by (simp cong: if_cong)
  show "positions (riskCheck w q s)
           = map (\<lambda>r. if pos_id r = pos_id q then riskRow (config s) w q else r) (positions s)"
  proof (cases "pnl_pct q \<le> - stopLossPct (config s)")
    case True
    then show ?thesis
      by (intro close [of STOPPED]) (simp_all add: riskCheck_def riskRow_def)
  next
    case sl: False
    show ?thesis
    proof (cases "pnl_pct q \<ge> takeProfitPct (config s)")
      case True
      with sl show ?thesis
        by (intro close [of TP_HIT]) (simp_all add: riskCheck_def riskRow_def)
    next
      case tp: False
      show ?thesis
      proof (cases "getTokenByAddress w (token_address q)")
        case None
        with sl tp show ?thesis
          by (intro keep) (simp_all add: riskCheck_def riskRow_def)
      next
        case (Some tokenData)
        show ?thesis
        proof (cases "t_liquidity tokenData < 3000")
          case True
          with sl tp Some show ?thesis
            by (intro close [of STOPPED]) (simp_all add: riskCheck_def riskRow_def)
        next
          case False
          with sl tp Some show ?thesis
            by (intro keep) (simp_all add: riskCheck_def riskRow_def)
        qed
      qed
    qed
  qed
  have one: "\<exists>new. trade_history (closePosition w (pos_id q) reason s) = trade_history s @ new
            \<and> length new = 1 \<and> (\<forall>t \<in> set new. th_side t = SELL)" for reason
    using c(2) [of w reason] by auto
  show "\<exists>new. trade_history (riskCheck w q s) = trade_history s @ new
            \<and> length new = (if riskFires (config s) w q then 1 else 0)
            \<and> (\<forall>t \<in> set new. th_side t = SELL)"
    using one [of STOPPED] one [of TP_HIT]
    by (simp add: riskCheck_def riskFires_def split: option.splits)
qed

lemma riskCheck_without_wallet: "wallet s = None \<Longrightarrow> riskCheck w q s = s"
  by (simp add: riskCheck_def closePosition_without_wallet split: option.splits)

lemma riskLoop_without_wallet: "wallet s = None \<Longrightarrow> riskLoop ws i ps s = s"
  by (induction ps arbitrary: i) (simp_all add: riskCheck_without_wallet)

lemma closePosition_keeps_other:
  "r \<in> set (positions s) \<Longrightarrow> pos_id r \<noteq> i \<Longrightarrow> r \<in> set (positions (closePosition w i reason s))"
  using positions_closePosition_cases [of w i reason s] by (auto simp add: image_iff)

lemma riskCheck_keeps_other:
  "r \<in> set (positions s) \<Longrightarrow> pos_id r \<noteq> pos_id q \<Longrightarrow> r \<in> set (positions (riskCheck w q s))"
  using riskCheck_cases [of w q s] by (auto intro: closePosition_keeps_other)

lemma riskLoop_keeps_other:
  "r \<in> set (positions s) \<Longrightarrow> pos_id r \<notin> pos_id ` set ps \<Longrightarrow>
   r \<in> set (positions (riskLoop ws i ps s))"
proof (induction ps arbitrary: i s)
  case Nil
  then show ?case by simp
next
  case (Cons q ps)
  from Cons.prems have "r \<in> set (positions (riskCheck (ws i) q s))"
    by (auto intro: riskCheck_keeps_other)
  with Cons.prems Cons.IH show ?case by auto
qed

lemma wallet_riskLoop [simp]: "wallet (riskLoop ws i ps s) = wallet s"
  by (induction ps arbitrary: i s) simp_all

lemma riskLoop_row:
  "wallet s \<noteq> None \<Longrightarrow> distinct (map pos_id (positions s)) \<Longrightarrow> distinct (map pos_id ps) \<Longrightarrow>
   set ps \<subseteq> set (positions s) \<Longrightarrow> (\<forall>q \<in> set ps. status q = OPEN) \<Longrightarrow> k < length ps \<Longrightarrow>
   riskRow (config s) (ws (i + k)) (ps ! k) \<in> set (positions (riskLoop ws i ps s))"
proof (induction ps arbitrary: i k s)
  case Nil
  then show ?case by simp
next
  case (Cons q ps)
  from Cons.prems have q: "q \<in> set (positions s)" and st: "status q = OPEN"
    and fresh: "pos_id q \<notin> pos_id ` set ps"
    by auto
  note step = riskCheck_open_row(1) [OF Cons.prems(1) Cons.prems(2) q st, of "ws i"]
  show ?case
  proof (cases k)
    case 0
    have "riskRow (config s) (ws i) q \<in> set (positions (riskCheck (ws i) q s))"
      unfolding step using q by (auto simp add: image_iff intro!: bexI [of _ q])
    then have "riskRow (config s) (ws i) q
                 \<in> set (positions (riskLoop ws (Suc i) ps (riskCheck (ws i) q s)))"
      using fresh by (intro riskLoop_keeps_other) simp_all
    with 0 show ?thesis by simp
  next
    case (Suc k')
    have sub: "set ps \<subseteq> set (positions (riskCheck (ws i) q s))"
    proof
      fix r assume r: "r \<in> set ps"
      with Cons.prems have "r \<in> set (positions s)" by auto
      moreover from r fresh have "pos_id r \<noteq> pos_id q" by (metis imageI)
      ultimately show "r \<in> set (positions (riskCheck (ws i) q s))"
        by (rule riskCheck_keeps_other)
    qed
    have "riskRow (config (riskCheck (ws i) q s)) (ws (Suc i + k')) (ps ! k')
            \<in> set (positions (riskLoop ws (Suc i) ps (riskCheck (ws i) q s)))"
      using Cons.prems Suc sub by (intro Cons.IH) simp_all
    with Suc show ?thesis by simp
  qed
qed

lemma length_filter_upt_Suc:
  "length (filter P [0..<Suc n])
     = (if P 0 then 1 else 0) + length (filter (\<lambda>k. P (Suc k)) [0..<n])"
proof -
  have "[0..<Suc n] = 0 # map Suc [0..<n]"
    by (simp add: upt_conv_Cons map_Suc_upt del: upt_Suc)
  then show ?thesis
    by (simp add: filter_map comp_def del: upt_Suc)
qed

lemma riskLoop_ledger:
  "wallet s \<noteq> None \<Longrightarrow> distinct (map pos_id (positions s)) \<Longrightarrow> distinct (map pos_id ps) \<Longrightarrow>
   set ps \<subseteq> set (positions s) \<Longrightarrow> (\<forall>q \<in> set ps. status q = OPEN) \<Longrightarrow>
   \<exists>new. trade_history (riskLoop ws i ps s) = trade_history s @ new
      \<and> length new = length (filter (\<lambda>k. riskFires (config s) (ws (i + k)) (ps ! k)) [0..<length ps])
      \<and> (\<forall>t \<in> set new. th_side t = SELL)"
proof (induction ps arbitrary: i s)
  case Nil
  then show ?case by simp
next
  case (Cons q ps)
  from Cons.prems have q: "q \<in> set (positions s)" and st: "status q = OPEN"
    and fresh: "pos_id q \<notin> pos_id ` set ps"
    by auto
  from riskCheck_open_row(2) [OF Cons.prems(1) Cons.prems(2) q st, of "ws i"]
  obtain new1 where n1: "trade_history (riskCheck (ws i) q s) = trade_history s @ new1"
    "length new1 = (if riskFires (config s) (ws i) q then 1 else 0)"
    "\<forall>t \<in> set new1. th_side t = SELL"
    by blast
  have sub: "set ps \<subseteq> set (positions (riskCheck (ws i) q s))"
  proof
    fix r assume r: "r \<in> set ps"
    with Cons.prems have "r \<in> set (positions s)" by auto
    moreover from r fresh have "pos_id r \<noteq> pos_id q" by (metis imageI)
    ultimately show "r \<in> set (positions (riskCheck (ws i) q s))"
      by (rule riskCheck_keeps_other)
  qed
  have "\<exists>new. trade_history (riskLoop ws (Suc i) ps (riskCheck (ws i) q s))
                 = trade_history (riskCheck (ws i) q s) @ new
      \<and> length new = length (filter (\<lambda>k. riskFires (config (riskCheck (ws i) q s))
                                           (ws (Suc i + k)) (ps ! k)) [0..<length ps])
      \<and> (\<forall>t \<in> set new. th_side t = SELL)"
    using Cons.prems sub by (intro Cons.IH) simp_all
  then obtain new2 where n2:
    "trade_history (riskLoop ws (Suc i) ps (riskCheck (ws i) q s))
       = trade_history (riskCheck (ws i) q s) @ new2"
    "length new2 = length (filter (\<lambda>k. riskFires (config s) (ws (Suc (i + k))) (ps ! k))
                             [0..<length ps])"
    "\<forall>t \<in> set new2. th_side t = SELL"
    by auto
  have len: "length (filter (\<lambda>k. riskFires (config s) (ws (i + k)) ((q # ps) ! k))
                       [0..<length (q # ps)])
             = length new1 + length new2"
    using length_filter_upt_Suc
            [of "\<lambda>k. riskFires (config s) (ws (i + k)) ((q # ps) ! k)" "length ps"]
    by (simp add: n1(2) n2(2))
  show ?case
    apply (rule exI [of _ "new1 @ new2"])
    using n1 n2 len apply auto
    done
qed

lemma tables_runRiskManager:
  assumes "running s" and "filter (\<lambda>p. status p = OPEN) (positions s) \<noteq> []"
  shows "positions (runRiskManager ws w s)
           = positions (riskLoop ws 0 (filter (\<lambda>p. status p = OPEN) (positions s))
                          (setAgentStatus ''risk'' Running None (clock w) s))"
    and "trade_history (runRiskManager ws w s)
           = trade_history (riskLoop ws 0 (filter (\<lambda>p. status p = OPEN) (positions s))
                              (setAgentStatus ''risk'' Running None (clock w) s))"
  using assms by (simp_all add: runRiskManager_def Let_def split: sum.splits)

subsection \<open>The request of a close\<close>

lemma closePosition_request:
  assumes wal: "wallet s \<noteq> None"
    and f: "find (\<lambda>q. pos_id q = i) (positions s) = Some p"
    and st: "status p = OPEN"
    and six: "token_decimals p = 6"
  shows "closePosition w i reason s =
     (case jupiter w \<lparr>inputMint = token_address p, outputMint = SOL_MINT,
                       amount = \<lfloor>token_amount p * 1000000\<rfloor>,
                       req_slippageBps = slippageBps (config s)\<rparr> of
        Confirmed txHash q \<Rightarrow>
          update_position i
            (\<lambda>r. r\<lparr>status := reason, exit_tx := Some txHash, exit_time := Some (clock w),
                    current_price :=
                      number_or (Some (q_outAmount q / LAMPORTS_PER_SOL / token_amount p))
                        (current_price p),
                    pnl_pct := pnl_pct p\<rparr>)
            (insert_trade
               \<lparr>th_token_address = token_address p, th_symbol = symbol p, th_side = SELL,
                th_sol_amount = number_or (Some (q_outAmount q / LAMPORTS_PER_SOL)) 0,
                th_token_amount = token_amount p,
                th_price = number_or (Some (q_outAmount q / LAMPORTS_PER_SOL / token_amount p)) 0,
                th_tx_hash = txHash, th_success = 1, th_error = [],
                th_timestamp = swap_clock w\<rparr> s)
      | Thrown e \<Rightarrow>
          insert_trade
            \<lparr>th_token_address = token_address p, th_symbol = symbol p, th_side = SELL,
             th_sol_amount = 0, th_token_amount = token_amount p, th_price = 0,
             th_tx_hash = [], th_success = 0,
             th_error = string_or (Some (e_message e)) (String_of_error e),
             th_timestamp = swap_clock w\<rparr> s)"
proof (cases "jupiter w \<lparr>inputMint = token_address p, outputMint = SOL_MINT,
                       amount = \<lfloor>token_amount p * 10 ^ 6\<rfloor>,
                       req_slippageBps = slippageBps (config s)\<rparr>")
  case (Thrown e)
  note r = executeSell_Thrown [OF Thrown]
  from Thrown have j: "jupiter w \<lparr>inputMint = token_address p, outputMint = SOL_MINT,
                       amount = \<lfloor>token_amount p * 1000000\<rfloor>,
                       req_slippageBps = slippageBps (config s)\<rparr> = Thrown e"
    by simp
  show ?thesis
    unfolding j using wal f st six r
    by (auto simp add: closePosition_def Let_def number_or_def string_or_def)
next
  case (Confirmed h q)
  note r = executeSell_Confirmed [OF Confirmed]
  from Confirmed have j: "jupiter w \<lparr>inputMint = token_address p, outputMint = SOL_MINT,
                       amount = \<lfloor>token_amount p * 1000000\<rfloor>,
                       req_slippageBps = slippageBps (config s)\<rparr> = Confirmed h q"
    by simp
  show ?thesis
    unfolding j using wal f st six r
    by (auto simp add: closePosition_def Let_def string_or_def)
qed

subsection \<open>More concrete values\<close>

lemma wallet_holdingAB: "wallet holdingAB = Some ''5Kd3''"
  by (simp add: holdingAB_def manualBuy_def wallet_holdingA world_ok_def
      executeBuy_def insert_trade_def insert_position_def Let_def)

lemma wallet_run_A_B:
  "wallet (run [ExecuteTrade world_ok tokenA 85 ''AI agents'', ManualBuy world_ok ''B'' 0.05]
             started) = Some ''5Kd3''"
  "slippageBps (config (run [ExecuteTrade world_ok tokenA 85 ''AI agents'',
                             ManualBuy world_ok ''B'' 0.05] started)) = 500"
proof -
  from executeTrade_started_A_returns obtain s'
    where s': "executeTrade world_ok tokenA 85 ''AI agents'' started = Inr s'" ..
  from executeTrade_started_A [OF s'] s'
  show "wallet (run [ExecuteTrade world_ok tokenA 85 ''AI agents'', ManualBuy world_ok ''B'' 0.05]
             started) = Some ''5Kd3''"
    by (simp add: run_def manualBuy_def world_ok_def tokenB_def executeBuy_def insert_trade_def
        insert_position_def Let_def)
  from executeTrade_started_A [OF s'] s'
  show "slippageBps (config (run [ExecuteTrade world_ok tokenA 85 ''AI agents'',
                             ManualBuy world_ok ''B'' 0.05] started)) = 500"
    by (simp add: run_def manualBuy_def world_ok_def tokenB_def executeBuy_def insert_trade_def
        insert_position_def Let_def cfg0_def)
qed

section \<open>The bound on open positions\<close>

text \<open>
  Claim C1 says that the number of OPEN rows never exceeds \<^verbatim>\<open>maxConcurrentTrades\<close>,
  manual buys included. \<^verbatim>\<open>manualBuy\<close> does not make the check that \<^verbatim>\<open>executeTrade\<close>
  makes: from an empty table and with \<^verbatim>\<open>maxConcurrentTrades\<close> 1, two confirmed manual
  buys leave two OPEN rows.
\<close>

theorem manualBuy_exceeds_maxConcurrentTrades:
  "positions started = []
   \<and> maxConcurrentTrades (config started) = 1
   \<and> openCount (run [ManualBuy world_ok ''A'' 0.05, ManualBuy world_ok ''B'' 0.05] started) = 2"
proof -
  have "openCount holdingAB = 2"
    by (simp add: openCount_def positions_holdingAB positionA_def positionB_def)
  then show ?thesis
    by (simp only: run_two_manual_buys) (simp add: started_def Swarm_def cfg0_def)
qed

text \<open>
  The Executor and the closing paths do keep the bound: in a run without manual buys,
  from a table within the bound, the number of OPEN rows stays at most
  \<^verbatim>\<open>maxConcurrentTrades\<close> (and the configuration is never changed).
\<close>

theorem executor_keeps_maxConcurrentTrades:
  assumes "\<forall>e \<in> set evs. \<not> isManualBuy e"
    and "int (openCount s) \<le> maxConcurrentTrades (config s)"
  shows "int (openCount (run evs s)) \<le> maxConcurrentTrades (config s)
       \<and> config (run evs s) = config s"
  using assms
proof (induction evs arbitrary: s)
  case Nil
  then show ?case by (simp add: run_def)
next
  case (Cons e evs)
  then have e: "\<not> isManualBuy e" and evs: "\<forall>e \<in> set evs. \<not> isManualBuy e" by simp_all
  have c: "config (step e s) = config s" by (rule config_step [OF e])
  have "int (openCount (step e s)) \<le> maxConcurrentTrades (config (step e s))"
    using openCount_step [OF e Cons.prems(2)] c by simp
  from Cons.IH [OF evs this] c show ?case by (simp add: run_def)
qed

text \<open>
  The theorem for two Executor buys with room for one position: the second token is
  skipped.
\<close>

theorem executor_keeps_maxConcurrentTrades_witness:
  "\<not> isManualBuy (ExecuteTrade world_ok tokenA 85 ''AI agents'')
   \<and> \<not> isManualBuy (ExecuteTrade world_ok tokenB 90 ''AI agents'')
   \<and> int (openCount started) \<le> maxConcurrentTrades (config started)
   \<and> maxConcurrentTrades (config started) = 1
   \<and> positions (run [ExecuteTrade world_ok tokenA 85 ''AI agents'',
                     ExecuteTrade world_ok tokenB 90 ''AI agents''] started)
       = [positionA\<lparr>score := 85, narrative := ''AI agents''\<rparr>]
   \<and> int (openCount (run [ExecuteTrade world_ok tokenA 85 ''AI agents'',
                           ExecuteTrade world_ok tokenB 90 ''AI agents''] started)) \<le> 1"
proof -
  have m: "\<forall>e \<in> set [ExecuteTrade world_ok tokenA 85 ''AI agents'',
                      ExecuteTrade world_ok tokenB 90 ''AI agents'']. \<not> isManualBuy e"
    by (simp add: isManualBuy_def)
  have c: "int (openCount started) \<le> maxConcurrentTrades (config started)"
    "maxConcurrentTrades (config started) = 1"
    by (simp_all add: started_def Swarm_def openCount_def cfg0_def)
  from executeTrade_started_A_returns obtain s'
    where s': "executeTrade world_ok tokenA 85 ''AI agents'' started = Inr s'" ..
  have r: "positions (run [ExecuteTrade world_ok tokenA 85 ''AI agents'',
                     ExecuteTrade world_ok tokenB 90 ''AI agents''] started)
       = [positionA\<lparr>score := 85, narrative := ''AI agents''\<rparr>]"
    using executeTrade_started_A [OF s'] executeTrade_second_refused [OF s'] s'
    by (simp add: run_def)
  from executor_keeps_maxConcurrentTrades [OF m c(1)] m c r
  show ?thesis by simp
qed

section \<open>One open position per token\<close>

text \<open>
  Claim C2 says that no operation leaves two OPEN rows for one token, and that a buy
  of a token with an OPEN row is a skip. \<^verbatim>\<open>manualBuy\<close> does not make the check that
  \<^verbatim>\<open>executeTrade\<close> makes: a confirmed manual buy of token A in \<open>holdingA\<close>, which holds
  an OPEN row for A, inserts a second OPEN row for A.
\<close>

theorem manualBuy_opens_second_position_for_token:
  "find (\<lambda>p. token_address p = ''A'' \<and> status p = OPEN) (positions holdingA) = Some positionA
   \<and> positions (step (ManualBuy world_ok ''A'' 0.05) holdingA)
       = [positionA, positionA\<lparr>pos_id := 2\<rparr>]
   \<and> length (filter (\<lambda>p. token_address p = ''A'' \<and> status p = OPEN)
               (positions (step (ManualBuy world_ok ''A'' 0.05) holdingA))) = 2"
proof -
  have "step (ManualBuy world_ok ''A'' 0.05) holdingA = snd (manualBuy world_ok ''A'' 0.05 holdingA)"
    by (simp only: step.simps)
  then show ?thesis
    by (simp only: positions_two_buys_of_A) (simp add: positions_holdingA positionA_def)
qed

text \<open>
  The Executor and the closing paths do keep the invariant: in a run without manual
  buys, a token with at most one OPEN row keeps at most one.
\<close>

theorem executor_keeps_one_open_per_token:
  assumes "\<forall>e \<in> set evs. \<not> isManualBuy e"
    and "openRows (\<lambda>b. b = a) s \<le> 1"
  shows "openRows (\<lambda>b. b = a) (run evs s) \<le> 1"
  using assms
proof (induction evs arbitrary: s)
  case Nil
  then show ?case by (simp add: run_def)
next
  case (Cons e evs)
  then have e: "\<not> isManualBuy e" and evs: "\<forall>e \<in> set evs. \<not> isManualBuy e" by simp_all
  from Cons.IH [OF evs openFor_step [OF e Cons.prems(2)]] show ?case by (simp add: run_def)
qed

text \<open>
  The theorem for two Executor buys of token A with room for three positions: the
  second is skipped.
\<close>

theorem executor_keeps_one_open_per_token_witness:
  "\<not> isManualBuy (ExecuteTrade world_ok tokenA 85 ''AI agents'')
   \<and> \<not> isManualBuy (ExecuteTrade world_ok tokenA 95 ''AI agents'')
   \<and> openRows (\<lambda>b. b = ''A'') started3 \<le> 1
   \<and> maxConcurrentTrades (config started3) = 3
   \<and> positions (run [ExecuteTrade world_ok tokenA 85 ''AI agents'',
                     ExecuteTrade world_ok tokenA 95 ''AI agents''] started3)
       = [positionA\<lparr>score := 85, narrative := ''AI agents''\<rparr>]
   \<and> openRows (\<lambda>b. b = ''A'') (run [ExecuteTrade world_ok tokenA 85 ''AI agents'',
                     ExecuteTrade world_ok tokenA 95 ''AI agents''] started3) \<le> 1"
proof -
  have m: "\<forall>e \<in> set [ExecuteTrade world_ok tokenA 85 ''AI agents'',
                      ExecuteTrade world_ok tokenA 95 ''AI agents'']. \<not> isManualBuy e"
    by (simp add: isManualBuy_def)
  have c: "openRows (\<lambda>b. b = ''A'') started3 \<le> 1" "maxConcurrentTrades (config started3) = 3"
    by (simp_all add: started3_def started_def Swarm_def openRows_def)
  from executeTrade_started3_A_returns obtain s'
    where s': "executeTrade world_ok tokenA 85 ''AI agents'' started3 = Inr s'" ..
  have r: "positions (run [ExecuteTrade world_ok tokenA 85 ''AI agents'',
                     ExecuteTrade world_ok tokenA 95 ''AI agents''] started3)
       = [positionA\<lparr>score := 85, narrative := ''AI agents''\<rparr>]"
    using executeTrade_started3_A [OF s'] executeTrade_started3_A_again [OF s'] s'
    by (simp add: run_def)
  from executor_keeps_one_open_per_token [OF m c(1)] m c r
  show ?thesis by simp
qed

section \<open>Manual trades and the Executor pipeline\<close>

text \<open>
  Claim C3, as the code has it. \<^verbatim>\<open>manualSell\<close> goes through \<^verbatim>\<open>closePosition\<close>, the
  close of the risk manager, with reason CLOSED. \<^verbatim>\<open>manualBuy\<close> refuses without a
  wallet, as \<^verbatim>\<open>executeTrade\<close> does, and when the token lookup finds nothing. It trades
  the amount \<open>x\<close> its caller gives: it does not query the balance, cap the size or apply
  the dust floor. Where the Executor's checks on the number of open positions and on
  an open position for the token would pass, it appends one BUY ledger row for \<open>x\<close>
  and, when the swap is confirmed, one OPEN row with entry size \<open>x\<close>, six token
  decimals, score 0 and narrative \<^verbatim>\<open>Manual\<close>; when the swap fails \<^verbatim>\<open>positions\<close> is
  unchanged. Where in addition the Executor's trade size for the wallet balance is
  \<open>x\<close> and \<open>x\<close> is not below the dust floor, the two tables end exactly as
  \<^verbatim>\<open>executeTrade\<close> with score 0 and narrative \<^verbatim>\<open>Manual\<close> leaves them.
\<close>

theorem manual_trades_pipeline:
  "snd (manualSell w i s) = closePosition w i CLOSED s
   \<and> (wallet s = None \<longrightarrow>
        manualBuy w a x s = (None, s) \<and> executeTrade w token sc narr s = Inr s
        \<and> manualSell w i s = (None, s))
   \<and> (getTokenByAddress w a = None \<longrightarrow> manualBuy w a x s = (None, s))
   \<and> (wallet s \<noteq> None \<and> getTokenByAddress w a = Some tk
        \<and> int (openCount s) < maxConcurrentTrades (config s)
        \<and> find (\<lambda>p. token_address p = a \<and> status p = OPEN) (positions s) = None \<longrightarrow>
        (\<exists>result s'. result = executeBuy w a x (slippageBps (config s))
           \<and> manualBuy w a x s = (Some result, s')
           \<and> (\<exists>t. trade_history s' = trade_history s @ [t] \<and> th_side t = BUY
                  \<and> th_token_address t = a \<and> th_sol_amount t = x
                  \<and> th_success t = (if r_success result then 1 else 0))
           \<and> (if r_success result
               then \<exists>p. positions s' = positions s @ [p] \<and> status p = OPEN
                      \<and> token_address p = a \<and> entry_sol p = x \<and> entry_price p = t_price tk
                      \<and> token_decimals p = 6 \<and> score p = 0 \<and> narrative p = ''Manual''
               else positions s' = positions s)
           \<and> (\<forall>b. getBalance w = Inr b \<and> tradeSize (config s) b = x \<and> \<not> x < 0.005 \<longrightarrow>
                 (\<exists>e. executeTrade w (tk\<lparr>t_address := a\<rparr>) 0 ''Manual'' s = Inr e
                    \<and> positions e = positions s' \<and> trade_history e = trade_history s'
                    \<and> positions_seq e = positions_seq s'))))"
proof (intro conjI impI)
  show "snd (manualSell w i s) = closePosition w i CLOSED s"
    by (rule manualSell_is_closePosition)
next
  assume "wallet s = None"
  then show "manualBuy w a x s = (None, s)" "executeTrade w token sc narr s = Inr s"
    "manualSell w i s = (None, s)"
    by (simp_all add: manualBuy_def executeTrade_def manualSell_def)
next
  assume "getTokenByAddress w a = None"
  then show "manualBuy w a x s = (None, s)"
    by (simp add: manualBuy_def)
next
  assume a: "wallet s \<noteq> None \<and> getTokenByAddress w a = Some tk
        \<and> int (openCount s) < maxConcurrentTrades (config s)
        \<and> find (\<lambda>p. token_address p = a \<and> status p = OPEN) (positions s) = None"
  define result where "result = executeBuy w a x (slippageBps (config s))"
  define s' where "s' = snd (manualBuy w a x s)"
  from a have w: "wallet s \<noteq> None" and l: "getTokenByAddress w a = Some tk"
    and cnt: "int (openCount s) < maxConcurrentTrades (config s)"
    and nodup: "find (\<lambda>p. token_address p = t_address (tk\<lparr>t_address := a\<rparr>) \<and> status p = OPEN)
                  (positions s) = None"
    by simp_all
  note mb = manualBuy_writes [OF w l result_def [symmetric]]
  have 1: "manualBuy w a x s = (Some result, s')"
    by (simp add: s'_def mb)
  have 2: "\<exists>t. trade_history s' = trade_history s @ [t] \<and> th_side t = BUY
                  \<and> th_token_address t = a \<and> th_sol_amount t = x
                  \<and> th_success t = (if r_success result then 1 else 0)"
    by (simp add: s'_def mb)
  have 3: "if r_success result
               then \<exists>p. positions s' = positions s @ [p] \<and> status p = OPEN
                      \<and> token_address p = a \<and> entry_sol p = x \<and> entry_price p = t_price tk
                      \<and> token_decimals p = 6 \<and> score p = 0 \<and> narrative p = ''Manual''
               else positions s' = positions s"
    by (simp add: s'_def mb)
  have 4: "\<exists>e. executeTrade w (tk\<lparr>t_address := a\<rparr>) 0 ''Manual'' s = Inr e
                    \<and> positions e = positions s' \<and> trade_history e = trade_history s'
                    \<and> positions_seq e = positions_seq s'"
    if b: "getBalance w = Inr b \<and> tradeSize (config s) b = x \<and> \<not> x < 0.005" for b
  proof -
    from b have bal: "getBalance w = Inr b" and sz: "\<not> tradeSize (config s) b < 0.005"
      and r: "executeBuy w (t_address (tk\<lparr>t_address := a\<rparr>)) (tradeSize (config s) b)
                (slippageBps (config s)) = result"
      by (simp_all add: result_def)
    from b have x: "tradeSize (config s) b = x" by simp
    show ?thesis
      unfolding executeTrade_writes [OF w cnt nodup bal sz r]
      by (simp add: s'_def mb x)
  qed
  show "\<exists>result s'. result = executeBuy w a x (slippageBps (config s))
           \<and> manualBuy w a x s = (Some result, s')
           \<and> (\<exists>t. trade_history s' = trade_history s @ [t] \<and> th_side t = BUY
                  \<and> th_token_address t = a \<and> th_sol_amount t = x
                  \<and> th_success t = (if r_success result then 1 else 0))
           \<and> (if r_success result
               then \<exists>p. positions s' = positions s @ [p] \<and> status p = OPEN
                      \<and> token_address p = a \<and> entry_sol p = x \<and> entry_price p = t_price tk
                      \<and> token_decimals p = 6 \<and> score p = 0 \<and> narrative p = ''Manual''
               else positions s' = positions s)
           \<and> (\<forall>b. getBalance w = Inr b \<and> tradeSize (config s) b = x \<and> \<not> x < 0.005 \<longrightarrow>
                 (\<exists>e. executeTrade w (tk\<lparr>t_address := a\<rparr>) 0 ''Manual'' s = Inr e
                    \<and> positions e = positions s' \<and> trade_history e = trade_history s'
                    \<and> positions_seq e = positions_seq s'))"
    apply (rule exI [of _ result])
    apply (rule exI [of _ s'])
    apply (intro conjI allI impI)
        apply (rule result_def)
       apply (rule 1)
      apply (rule 2)
     apply (rule 3)
    apply (erule 4)
    done
qed

text \<open>
  The claim as stated (the same checks and the same writes but for narrative and
  score) fails, since a manual buy trades the amount its caller names. With 1 SOL in
  the wallet the Executor buys token A for 0.05 SOL where a manual buy of 0.02 SOL
  enters with 0.02 SOL; with 0.001 SOL in the wallet the Executor refuses, the trade
  size being below the dust floor, where a manual buy of 0.05 SOL goes through.
\<close>

theorem manual_buy_trades_callers_amount_counterexample:
  "map entry_sol (positions (step (ExecuteTrade world_ok tokenA 0 ''Manual'') started)) = [0.05]
   \<and> map entry_sol (positions (step (ManualBuy world_ok ''A'' 0.02) started)) = [0.02]
   \<and> tradeSize (config started) 1000000 < 0.005
   \<and> positions (step (ExecuteTrade world_poor tokenA 0 ''Manual'') started) = []
   \<and> positions (step (ManualBuy world_poor ''A'' 0.05) started) = [positionA]"
proof -
  have "snd (manualBuy world_poor ''A'' 0.05 started) = holdingA"
    by (simp add: holdingA_def manualBuy_def world_poor_def world_ok_def executeBuy_def Let_def)
  then have a: "positions (step (ManualBuy world_poor ''A'' 0.05) started) = [positionA]"
    by (simp add: positions_holdingA)
  have b: "tradeSize (config started) 1000000 < 0.005"
    "positions (step (ExecuteTrade world_poor tokenA 0 ''Manual'') started) = []"
    by (simp_all add: executeTrade_def started_def Swarm_def openCount_def cfg0_def
        world_poor_def world_ok_def tradeSize_def LAMPORTS_PER_SOL_def Let_def)
  have c: "map entry_sol (positions (step (ManualBuy world_ok ''A'' 0.02) started)) = [0.02]"
    by (simp add: manualBuy_def started_def Swarm_def world_ok_def executeBuy_def
        insert_trade_def insert_position_def next_id_def Let_def)
  have d: "map entry_sol (positions (step (ExecuteTrade world_ok tokenA 0 ''Manual'') started))
           = [0.05]"
    by (simp add: executeTrade_def started_def Swarm_def openCount_def cfg0_def tokenA_def
        world_ok_def tradeSize_def LAMPORTS_PER_SOL_def executeBuy_def insert_trade_def
        insert_position_def next_id_def Let_def)
  from a b c d show ?thesis by simp
qed

text \<open>
  The theorem for a manual buy of 0.05 SOL of token A with 1 SOL in the wallet, where
  the Executor would trade 0.05 SOL too.
\<close>

theorem manual_trades_pipeline_witness:
  "wallet started \<noteq> None \<and> getTokenByAddress world_ok ''A'' = Some tokenA
   \<and> int (openCount started) < maxConcurrentTrades (config started)
   \<and> find (\<lambda>p. token_address p = ''A'' \<and> status p = OPEN) (positions started) = None
   \<and> getBalance world_ok = Inr 1000000000
   \<and> tradeSize (config started) 1000000000 = 0.05
   \<and> (\<exists>e. executeTrade world_ok tokenA 0 ''Manual'' started = Inr e
          \<and> positions e = positions (snd (manualBuy world_ok ''A'' 0.05 started))
          \<and> trade_history e = trade_history (snd (manualBuy world_ok ''A'' 0.05 started)))
   \<and> positions (snd (manualBuy world_ok ''A'' 0.05 started)) = [positionA]"
proof -
  have h: "wallet started \<noteq> None \<and> getTokenByAddress world_ok ''A'' = Some tokenA
        \<and> int (openCount started) < maxConcurrentTrades (config started)
        \<and> find (\<lambda>p. token_address p = ''A'' \<and> status p = OPEN) (positions started) = None"
    by (simp add: started_def Swarm_def world_ok_def openCount_def cfg0_def)
  have c: "config started = cfg0" by (simp add: started_def Swarm_def)
  have b: "getBalance world_ok = Inr 1000000000 \<and> tradeSize (config started) 1000000000 = 0.05
        \<and> \<not> (0.05 :: real) < 0.005"
    by (simp add: world_ok_def c tradeSize_cfg0)
  have t: "tokenA\<lparr>t_address := ''A''\<rparr> = tokenA" by (simp add: tokenA_def)
  from manual_trades_pipeline [where w = world_ok and s = started and a = "''A''" and x = "0.05"
         and tk = tokenA] h
  obtain result s' where m: "manualBuy world_ok ''A'' 0.05 started = (Some result, s')"
    and e: "\<forall>b. getBalance world_ok = Inr b \<and> tradeSize (config started) b = 0.05
                \<and> \<not> (0.05 :: real) < 0.005 \<longrightarrow>
              (\<exists>e. executeTrade world_ok (tokenA\<lparr>t_address := ''A''\<rparr>) 0 ''Manual'' started = Inr e
                 \<and> positions e = positions s' \<and> trade_history e = trade_history s'
                 \<and> positions_seq e = positions_seq s')"
    by blast
  from e b obtain e' where "executeTrade world_ok (tokenA\<lparr>t_address := ''A''\<rparr>) 0 ''Manual'' started = Inr e'"
    "positions e' = positions s'" "trade_history e' = trade_history s'"
    by blast
  with m t have "\<exists>e. executeTrade world_ok tokenA 0 ''Manual'' started = Inr e
          \<and> positions e = positions (snd (manualBuy world_ok ''A'' 0.05 started))
          \<and> trade_history e = trade_history (snd (manualBuy world_ok ''A'' 0.05 started))"
    by simp
  moreover have "positions (snd (manualBuy world_ok ''A'' 0.05 started)) = [positionA]"
    using positions_holdingA by (simp only: holdingA_def)
  ultimately show ?thesis
    using h b by blast
qed

section \<open>The risk rules: stop-loss before take-profit before liquidity\<close>

text \<open>
  Claim C4. Let the swarm be running with a wallet loaded, let the row ids be distinct
  (\<^verbatim>\<open>id\<close> is the primary key), and let \<open>p\<close> be the \<open>j\<close>-th row of the snapshot \<open>opens\<close>
  of OPEN positions that a tick of the risk manager reads. After the tick the table
  holds exactly one row \<open>p'\<close> with the id of \<open>p\<close>, and it is the outcome of the rules
  in their fixed order: when \<^verbatim>\<open>pnl_pct\<close> of \<open>p\<close> is at most \<open>- stopLossPct\<close> the row
  was closed with reason STOPPED; else when it is at least \<open>takeProfitPct\<close> the row
  was closed with reason TP_HIT; else the live liquidity was looked up and the row
  was closed with reason STOPPED when that is below 3000, and is \<open>p\<close> as it was
  otherwise. (A close whose sale fails leaves the row as it was; \<open>result\<close> is the
  result of the sale of \<open>p\<close> in iteration \<open>j\<close>.) When both thresholds are met at once
  the row ends STOPPED, or stays OPEN when the sale fails: it never becomes TP_HIT.
  The tick keeps the ids of the table and every row that was not OPEN, and it appends
  to the ledger SELL rows only, exactly one for each open position for which a rule
  asks for a close: no position is closed twice in a tick.
\<close>

theorem runRiskManager_precedence:
  assumes run: "running s"
    and wal: "wallet s \<noteq> None"
    and ids: "distinct (map pos_id (positions s))"
    and opens: "filter (\<lambda>p. status p = OPEN) (positions s) = opens"
    and j: "j < length opens"
    and p: "opens ! j = p"
    and sell: "executeSell (ws j) (token_address p) (token_amount p) (token_decimals p)
                 (slippageBps (config s)) = result"
  shows "\<exists>p' new.
      filter (\<lambda>q. pos_id q = pos_id p) (positions (runRiskManager ws w s)) = [p']
    \<and> p' = (if pnl_pct p \<le> - stopLossPct (config s) then closed_row STOPPED (ws j) result p
            else if pnl_pct p \<ge> takeProfitPct (config s) then closed_row TP_HIT (ws j) result p
            else case getTokenByAddress (ws j) (token_address p) of
                   Some tokenData \<Rightarrow>
                     if t_liquidity tokenData < 3000 then closed_row STOPPED (ws j) result p
                     else p
                 | None \<Rightarrow> p)
    \<and> (pnl_pct p \<le> - stopLossPct (config s) \<and> pnl_pct p \<ge> takeProfitPct (config s) \<longrightarrow>
          status p' = (if r_success result then STOPPED else OPEN))
    \<and> map pos_id (positions (runRiskManager ws w s)) = map pos_id (positions s)
    \<and> (\<forall>q \<in> set (positions s). status q \<noteq> OPEN \<longrightarrow> q \<in> set (positions (runRiskManager ws w s)))
    \<and> trade_history (runRiskManager ws w s) = trade_history s @ new
    \<and> (\<forall>t \<in> set new. th_side t = SELL)
    \<and> length new
        = length (filter (\<lambda>i. pnl_pct (opens ! i) \<le> - stopLossPct (config s)
                              \<or> pnl_pct (opens ! i) \<ge> takeProfitPct (config s)
                              \<or> (case getTokenByAddress (ws i) (token_address (opens ! i)) of
                                    Some tokenData \<Rightarrow> t_liquidity tokenData < 3000
                                  | None \<Rightarrow> False))
                    [0..<length opens])"
proof -
  let ?s1 = "setAgentStatus ''risk'' Running None (clock w) s"
  let ?after = "runRiskManager ws w s"
  from j opens have ne: "filter (\<lambda>p. status p = OPEN) (positions s) \<noteq> []" by auto
  note tabs = tables_runRiskManager [OF run ne, of ws w, unfolded opens]
  have w1: "wallet ?s1 \<noteq> None" using wal by simp
  have d1: "distinct (map pos_id (positions ?s1))" using ids by simp
  have dps: "distinct (map pos_id opens)"
    using ids opens by (auto simp add: distinct_map_filter)
  have sub: "set opens \<subseteq> set (positions ?s1)" using opens by auto
  have op: "\<forall>q \<in> set opens. status q = OPEN" using opens by auto
  have pin: "p \<in> set opens" using j p by (metis nth_mem)
  then have st: "status p = OPEN" using op by blast
  have "riskRow (config ?s1) (ws (0 + j)) (opens ! j) \<in> set (positions (riskLoop ws 0 opens ?s1))"
    by (rule riskLoop_row [OF w1 d1 dps sub op j])
  then have row: "riskRow (config s) (ws j) p \<in> set (positions ?after)"
    using p by (simp add: tabs(1))
  have idsa: "map pos_id (positions ?after) = map pos_id (positions s)"
    by simp
  then have da: "distinct (map pos_id (positions ?after))" using ids by simp
  have "filter (\<lambda>q. pos_id q = pos_id (riskRow (config s) (ws j) p)) (positions ?after)
          = [riskRow (config s) (ws j) p]"
    by (rule filter_by_id [OF da row])
  then have A: "filter (\<lambda>q. pos_id q = pos_id p) (positions ?after) = [riskRow (config s) (ws j) p]"
    by simp
  have B: "riskRow (config s) (ws j) p
     = (if pnl_pct p \<le> - stopLossPct (config s) then closed_row STOPPED (ws j) result p
            else if pnl_pct p \<ge> takeProfitPct (config s) then closed_row TP_HIT (ws j) result p
            else case getTokenByAddress (ws j) (token_address p) of
                   Some tokenData \<Rightarrow>
                     if t_liquidity tokenData < 3000 then closed_row STOPPED (ws j) result p
                     else p
                 | None \<Rightarrow> p)"
    by (simp add: riskRow_def Let_def sell)
  have C: "pnl_pct p \<le> - stopLossPct (config s) \<and> pnl_pct p \<ge> takeProfitPct (config s) \<longrightarrow>
          status (riskRow (config s) (ws j) p) = (if r_success result then STOPPED else OPEN)"
    using st by (simp add: B closed_row_def)
  have D: "\<forall>q \<in> set (positions s). status q \<noteq> OPEN \<longrightarrow> q \<in> set (positions ?after)"
  proof (intro ballI impI)
    fix q assume q: "q \<in> set (positions s)" "status q \<noteq> OPEN"
    have "pos_id q \<notin> pos_id ` set opens"
    proof
      assume "pos_id q \<in> pos_id ` set opens"
      then obtain r where r: "r \<in> set opens" "pos_id q = pos_id r" by auto
      with opens have "r \<in> set (positions s)" "status r = OPEN" by auto
      with same_id_same_row [OF ids q(1) this(1) r(2)] q(2) show False by simp
    qed
    moreover from q have "q \<in> set (positions ?s1)" by simp
    ultimately have "q \<in> set (positions (riskLoop ws 0 opens ?s1))"
      by (intro riskLoop_keeps_other)
    then show "q \<in> set (positions ?after)" by (simp add: tabs(1))
  qed
  from riskLoop_ledger [OF w1 d1 dps sub op, of ws 0]
  obtain new where n: "trade_history (riskLoop ws 0 opens ?s1) = trade_history ?s1 @ new"
    "length new = length (filter (\<lambda>k. riskFires (config ?s1) (ws (0 + k)) (opens ! k))
                            [0..<length opens])"
    "\<forall>t \<in> set new. th_side t = SELL"
    by blast
  have E: "trade_history ?after = trade_history s @ new"
    using n(1) by (simp add: tabs(2))
  have F: "length new
        = length (filter (\<lambda>i. pnl_pct (opens ! i) \<le> - stopLossPct (config s)
                              \<or> pnl_pct (opens ! i) \<ge> takeProfitPct (config s)
                              \<or> (case getTokenByAddress (ws i) (token_address (opens ! i)) of
                                    Some tokenData \<Rightarrow> t_liquidity tokenData < 3000
                                  | None \<Rightarrow> False))
                    [0..<length opens])"
    using n(2) by (simp add: riskFires_def)
  show ?thesis
    apply (rule exI [of _ "riskRow (config s) (ws j) p"])
    apply (rule exI [of _ new])
    apply (intro conjI)
           apply (rule A)
          apply (rule B)
         apply (rule C)
        apply (rule idsa)
       apply (rule D)
      apply (rule E)
     apply (rule n(3))
    apply (rule F)
    done
qed

text \<open>
  The theorem for the second of the two open positions of \<open>boundaryAB\<close>, whose
  \<^verbatim>\<open>pnl_pct\<close> 0 meets both thresholds: it ends STOPPED, and the tick appends two ledger
  rows, one for each position.
\<close>

theorem runRiskManager_precedence_witness:
  "running boundaryAB
   \<and> wallet boundaryAB \<noteq> None
   \<and> distinct (map pos_id (positions boundaryAB))
   \<and> filter (\<lambda>p. status p = OPEN) (positions boundaryAB) = [positionA, positionB]
   \<and> pnl_pct positionB \<le> - stopLossPct (config boundaryAB)
   \<and> pnl_pct positionB \<ge> takeProfitPct (config boundaryAB)
   \<and> r_success (executeSell world_ok ''B'' 100 6 500)
   \<and> (\<exists>p' new.
         filter (\<lambda>q. pos_id q = 2) (positions (runRiskManager (\<lambda>i. world_ok) world_ok boundaryAB)) = [p']
       \<and> status p' = STOPPED
       \<and> trade_history (runRiskManager (\<lambda>i. world_ok) world_ok boundaryAB)
           = trade_history boundaryAB @ new
       \<and> length new = 2)"
proof -
  have r: "running boundaryAB" by (simp add: boundaryAB_def running_holdingAB)
  have w: "wallet boundaryAB \<noteq> None" by (simp add: boundaryAB_def wallet_holdingAB)
  have d: "distinct (map pos_id (positions boundaryAB))"
    by (simp add: boundaryAB_def positions_holdingAB positionA_def positionB_def)
  have o: "filter (\<lambda>p. status p = OPEN) (positions boundaryAB) = [positionA, positionB]"
    by (simp add: boundaryAB_def positions_holdingAB positionA_def positionB_def)
  have j: "1 < length [positionA, positionB]" by simp
  have p: "[positionA, positionB] ! 1 = positionB" by simp
  have c: "stopLossPct (config boundaryAB) = 0" "takeProfitPct (config boundaryAB) = 0"
    "slippageBps (config boundaryAB) = 500"
    by (simp_all add: boundaryAB_def cfg0_def)
  have b: "pnl_pct positionB = 0" "pnl_pct positionA = 0" "pos_id positionB = 2"
    "token_address positionB = ''B''" "token_amount positionB = 100" "token_decimals positionB = 6"
    by (simp_all add: positionA_def positionB_def)
  have ok: "r_success (executeSell world_ok ''B'' 100 6 500)"
    by (simp add: executeSell_def world_ok_def Let_def)
  have sell: "executeSell ((\<lambda>i. world_ok) 1) (token_address positionB) (token_amount positionB)
                (token_decimals positionB) (slippageBps (config boundaryAB))
              = executeSell world_ok ''B'' 100 6 500"
    by (simp add: b c)
  have two: "[0..<length [positionA, positionB]] = [0, 1]"
    by (simp add: upt_conv_Cons)
  from runRiskManager_precedence [OF r w d o j p sell, of world_ok]
  obtain p' new where h:
    "filter (\<lambda>q. pos_id q = 2) (positions (runRiskManager (\<lambda>i. world_ok) world_ok boundaryAB)) = [p']"
    "status p' = STOPPED"
    "trade_history (runRiskManager (\<lambda>i. world_ok) world_ok boundaryAB) = trade_history boundaryAB @ new"
    "length new = 2"
    unfolding two by (auto simp add: b c ok)
  from r w d o ok h show ?thesis
    by (auto simp add: b c)
qed

section \<open>Starting the swarm\<close>

text \<open>
  Claim C5, as the code has it. \<^verbatim>\<open>start\<close> returns at once, changing nothing, when the
  swarm is running already or when \<^verbatim>\<open>openrouterKey\<close> or \<^verbatim>\<open>rpcUrl\<close> is empty. When a
  \<^verbatim>\<open>walletKey\<close> is configured and decoding it, or the balance query that follows,
  throws, it returns too: no timer is added, no agent status is touched and the swarm
  is not running. In every other case it stores the gateway handles (and the
  wallet, when a key is configured), sets \<^verbatim>\<open>running\<close>, marks each of the six agents
  Running, runs the Narrative pass and then the Hunter pass, and appends exactly
  four timers to \<^verbatim>\<open>intervals\<close>: the Narrative scan every \<open>2 * I\<close> ms, the Hunter scan
  every \<open>I\<close> ms, the risk manager every 30000 ms and the price updater every 20000 ms,
  where \<open>I\<close> is \<^verbatim>\<open>scanIntervalMs\<close>, or 60000 when \<^verbatim>\<open>scanIntervalMs\<close> is 0.
\<close>

theorem start_behaviour:
  fixes createWallet w runNarrativeScanner runCoinHunter s
  defines "out \<equiv> start createWallet w runNarrativeScanner runCoinHunter s"
  shows "(running s \<or> openrouterKey (config s) = [] \<or> rpcUrl (config s) = [] \<longrightarrow> out = s)
   \<and> (\<not> running s \<and> walletKey (config s) \<noteq> []
        \<and> ((\<exists>e. createWallet (walletKey (config s)) = Inl e) \<or> (\<exists>e. getBalance w = Inl e)) \<longrightarrow>
        \<not> running out \<and> intervals out = intervals s \<and> agents out = agents s)
   \<and> (\<not> running s \<and> openrouterKey (config s) \<noteq> [] \<and> rpcUrl (config s) \<noteq> []
        \<and> (walletKey (config s) = []
            \<or> (\<exists>k b. createWallet (walletKey (config s)) = Inr k \<and> getBalance w = Inr b)) \<longrightarrow>
        (\<exists>loaded deployed scanned.
            loaded = s\<lparr>llmConfig := Some \<lparr>apiKey = openrouterKey (config s),
                                           llm_model = string_or (Some (model (config s)))
                                                         ''deepseek/deepseek-chat''\<rparr>,
                        connection := Some (rpcUrl (config s)),
                        wallet := (case createWallet (walletKey (config s)) of
                                     Inr k \<Rightarrow> if walletKey (config s) = [] then wallet s else Some k
                                   | Inl e \<Rightarrow> wallet s)\<rparr>
          \<and> deployed = deployAgents (clock w) (loaded\<lparr>running := True\<rparr>)
          \<and> running deployed
          \<and> (\<forall>k \<in> set (map fst agentDefs). agents s k \<noteq> None \<longrightarrow>
                map_option a_status (agents deployed k) = Some Running)
          \<and> scanned = runCoinHunter (runNarrativeScanner deployed)
          \<and> out = scanned\<lparr>intervals := intervals scanned @
                     [\<lparr>timer_task = NarrativeScannerTask, timer_period = scanInterval scanned * 2\<rparr>,
                      \<lparr>timer_task = CoinHunterTask, timer_period = scanInterval scanned\<rparr>,
                      \<lparr>timer_task = RiskManagerTask, timer_period = 30000\<rparr>,
                      \<lparr>timer_task = PriceUpdaterTask, timer_period = 20000\<rparr>]\<rparr>
          \<and> scanInterval scanned = (if scanIntervalMs (config scanned) = 0 then 60000
                                     else scanIntervalMs (config scanned))))"
proof (intro conjI impI)
  assume "running s \<or> openrouterKey (config s) = [] \<or> rpcUrl (config s) = []"
  then show "out = s"
    unfolding out_def by (rule start_refuses)
next
  assume a: "\<not> running s \<and> walletKey (config s) \<noteq> []
        \<and> ((\<exists>e. createWallet (walletKey (config s)) = Inl e) \<or> (\<exists>e. getBalance w = Inl e))"
  then have "\<not> running out \<and> intervals out = intervals s \<and> agents out = agents s"
    unfolding out_def by (intro start_wallet_failure) simp_all
  then show "\<not> running out" "intervals out = intervals s" "agents out = agents s"
    by simp_all
next
  assume a: "\<not> running s \<and> openrouterKey (config s) \<noteq> [] \<and> rpcUrl (config s) \<noteq> []
        \<and> (walletKey (config s) = []
            \<or> (\<exists>k b. createWallet (walletKey (config s)) = Inr k \<and> getBalance w = Inr b))"
  define loaded where "loaded = s\<lparr>llmConfig := Some \<lparr>apiKey = openrouterKey (config s),
                                           llm_model = string_or (Some (model (config s)))
                                                         ''deepseek/deepseek-chat''\<rparr>,
                        connection := Some (rpcUrl (config s)),
                        wallet := (case createWallet (walletKey (config s)) of
                                     Inr k \<Rightarrow> if walletKey (config s) = [] then wallet s else Some k
                                   | Inl e \<Rightarrow> wallet s)\<rparr>"
  define deployed where "deployed = deployAgents (clock w) (loaded\<lparr>running := True\<rparr>)"
  define scanned where "scanned = runCoinHunter (runNarrativeScanner deployed)"
  have r: "running deployed" by (simp add: deployed_def)
  have ag: "\<forall>k \<in> set (map fst agentDefs). agents s k \<noteq> None \<longrightarrow>
                map_option a_status (agents deployed k) = Some Running"
    unfolding deployed_def
    by (intro ballI impI status_deployAgents) (simp_all add: loaded_def)
  from a have "start createWallet w runNarrativeScanner runCoinHunter s
           = launch w runNarrativeScanner runCoinHunter loaded"
    unfolding loaded_def by (intro start_launches) simp_all
  then have o: "out = scanned\<lparr>intervals := intervals scanned @
                     [\<lparr>timer_task = NarrativeScannerTask, timer_period = scanInterval scanned * 2\<rparr>,
                      \<lparr>timer_task = CoinHunterTask, timer_period = scanInterval scanned\<rparr>,
                      \<lparr>timer_task = RiskManagerTask, timer_period = 30000\<rparr>,
                      \<lparr>timer_task = PriceUpdaterTask, timer_period = 20000\<rparr>]\<rparr>"
    by (simp only: out_def launch_def scheduleLoops_def scanned_def deployed_def)
  have p: "scanInterval scanned = (if scanIntervalMs (config scanned) = 0 then 60000
                                     else scanIntervalMs (config scanned))"
    by (rule scanInterval_def)
  show "\<exists>loaded deployed scanned.
            loaded = s\<lparr>llmConfig := Some \<lparr>apiKey = openrouterKey (config s),
                                           llm_model = string_or (Some (model (config s)))
                                                         ''deepseek/deepseek-chat''\<rparr>,
                        connection := Some (rpcUrl (config s)),
                        wallet := (case createWallet (walletKey (config s)) of
                                     Inr k \<Rightarrow> if walletKey (config s) = [] then wallet s else Some k
                                   | Inl e \<Rightarrow> wallet s)\<rparr>
          \<and> deployed = deployAgents (clock w) (loaded\<lparr>running := True\<rparr>)
          \<and> running deployed
          \<and> (\<forall>k \<in> set (map fst agentDefs). agents s k \<noteq> None \<longrightarrow>
                map_option a_status (agents deployed k) = Some Running)
          \<and> scanned = runCoinHunter (runNarrativeScanner deployed)
          \<and> out = scanned\<lparr>intervals := intervals scanned @
                     [\<lparr>timer_task = NarrativeScannerTask, timer_period = scanInterval scanned * 2\<rparr>,
                      \<lparr>timer_task = CoinHunterTask, timer_period = scanInterval scanned\<rparr>,
                      \<lparr>timer_task = RiskManagerTask, timer_period = 30000\<rparr>,
                      \<lparr>timer_task = PriceUpdaterTask, timer_period = 20000\<rparr>]\<rparr>
          \<and> scanInterval scanned = (if scanIntervalMs (config scanned) = 0 then 60000
                                     else scanIntervalMs (config scanned))"
    apply (rule exI [of _ loaded])
    apply (rule exI [of _ deployed])
    apply (rule exI [of _ scanned])
    apply (intro conjI)
          apply (rule loaded_def)
         apply (rule deployed_def)
        apply (rule r)
       apply (rule ag)
      apply (rule scanned_def)
     apply (rule o)
    apply (rule p)
    done
qed

text \<open>
  The claim as stated (with the credential and the endpoint present, all agents are
  marked running and four tasks are scheduled) fails when the configured wallet key
  cannot be decoded: nothing is scheduled and the agents stay idle.
\<close>

theorem start_wallet_error_counterexample:
  "openrouterKey (config fresh) \<noteq> [] \<and> rpcUrl (config fresh) \<noteq> []
   \<and> intervals (start createWallet_rejects world_ok id id fresh) = []
   \<and> map_option a_status (agents (start createWallet_rejects world_ok id id fresh) ''hunter'')
       = Some Idle
   \<and> \<not> running (start createWallet_rejects world_ok id id fresh)"
  by (simp add: fresh_def Swarm_def cfg0_def start_def createWallet_rejects_def agentDefs_def
      Let_def)

text \<open>
  The theorem for a fresh swarm whose wallet loads, with scan passes that only
  report to the agent table.
\<close>

theorem start_behaviour_witness:
  "\<not> running fresh \<and> openrouterKey (config fresh) \<noteq> [] \<and> rpcUrl (config fresh) \<noteq> []
   \<and> (\<lambda>k. Inr k) (walletKey (config fresh)) = (Inr ''5Kd3'' :: js_error + string)
   \<and> getBalance world_ok = Inr 1000000000
   \<and> intervals (start (\<lambda>k. Inr k) world_ok
                   (setAgentStatus ''narrative'' Running (Some ''Found 0 narratives'') 12)
                   (setAgentStatus ''hunter'' Running (Some ''Scored 0 tokens'') 13) fresh)
       = [\<lparr>timer_task = NarrativeScannerTask, timer_period = 120000\<rparr>,
          \<lparr>timer_task = CoinHunterTask, timer_period = 60000\<rparr>,
          \<lparr>timer_task = RiskManagerTask, timer_period = 30000\<rparr>,
          \<lparr>timer_task = PriceUpdaterTask, timer_period = 20000\<rparr>]
   \<and> map_option a_status
        (agents (deployAgents 11 (fresh\<lparr>wallet := Some ''5Kd3'', running := True\<rparr>)) ''risk'')
       = Some Running"
proof -
  have a: "\<not> running fresh" "openrouterKey (config fresh) \<noteq> []" "rpcUrl (config fresh) \<noteq> []"
    "walletKey (config fresh) = ''5Kd3''"
    by (simp_all add: fresh_def Swarm_def cfg0_def)
  have b: "getBalance world_ok = Inr 1000000000" "clock world_ok = 11"
    by (simp_all add: world_ok_def)
  have c: "agents fresh ''risk'' \<noteq> None" "''risk'' \<in> set (map fst agentDefs)"
    by (simp_all add: fresh_def Swarm_def agentDefs_def)
  have e: "config fresh = cfg0" "intervals fresh = []"
    by (simp_all add: fresh_def Swarm_def)
  from start_behaviour [of fresh "\<lambda>k. Inr k" world_ok
         "setAgentStatus ''narrative'' Running (Some ''Found 0 narratives'') 12"
         "setAgentStatus ''hunter'' Running (Some ''Scored 0 tokens'') 13"]
  show ?thesis
    using a b c e
    by (simp add: scanInterval_def cfg0_def status_deployAgents
        del: map_option_eq_Some not_None_eq)
qed

section \<open>The price updater recomputes the PnL of every position it can look up\<close>



section \<open>A failed buy is recorded and opens no position\<close>

text \<open>
  Claim C7. Let an Executor buy reach the swap (a wallet is loaded, fewer than
  \<^verbatim>\<open>maxConcurrentTrades\<close> positions are open, none is open for the token, and the trade
  size is not below 0.005), and let the swap fail, that is, a statement of the
  \<^verbatim>\<open>try\<close> block of \<^verbatim>\<open>executeBuy\<close> throws an \<^verbatim>\<open>Error\<close> object \<open>e\<close> (whose \<^verbatim>\<open>name\<close>, as for
  every error class of the language, is not empty). Then \<^verbatim>\<open>executeBuy\<close> returns
  \<^verbatim>\<open>success = false\<close>, and \<^verbatim>\<open>executeTrade\<close> appends exactly one row to
  \<^verbatim>\<open>trade_history\<close>, a BUY with \<^verbatim>\<open>success\<close> 0 and a non-empty \<^verbatim>\<open>error\<close>, and leaves table
  \<^verbatim>\<open>positions\<close> as it was.
\<close>

theorem executeTrade_failed_buy:
  assumes w: "wallet s \<noteq> None"
    and cnt: "int (openCount s) < maxConcurrentTrades (config s)"
    and nodup: "find (\<lambda>p. token_address p = t_address token \<and> status p = OPEN) (positions s) = None"
    and bal: "getBalance w = Inr balance"
    and sz: "\<not> tradeSize (config s) balance < 0.005"
    and thrown: "jupiter w \<lparr>inputMint = SOL_MINT, outputMint = t_address token,
                   amount = \<lfloor>tradeSize (config s) balance * LAMPORTS_PER_SOL\<rfloor>,
                   req_slippageBps = slippageBps (config s)\<rparr> = Thrown e"
    and name: "e_name e \<noteq> []"
  shows "\<not> r_success (executeBuy w (t_address token) (tradeSize (config s) balance)
                          (slippageBps (config s)))
       \<and> (\<exists>s' t. executeTrade w token sc narr s = Inr s'
             \<and> trade_history s' = trade_history s @ [t]
             \<and> th_side t = BUY \<and> th_success t = 0 \<and> th_error t \<noteq> []
             \<and> th_token_address t = t_address token
             \<and> positions s' = positions s \<and> positions_seq s' = positions_seq s)"
proof -
  let ?r = "executeBuy w (t_address token) (tradeSize (config s) balance) (slippageBps (config s))"
  have r: "?r = \<lparr>r_success = False, r_txHash = None,
      r_error = Some (string_or (Some (e_message e)) (String_of_error e)),
      r_inputAmount = tradeSize (config s) balance, r_outputAmount = None, r_price = None,
      r_timestamp = swap_clock w\<rparr>"
    by (rule executeBuy_Thrown [OF thrown])
  have ne: "string_or (Some (e_message e)) (String_of_error e) \<noteq> []"
    by (rule error_text_nonempty [OF name])
  from w cnt nodup bal sz r ne show ?thesis
    by (simp add: executeTrade_def Let_def insert_trade_def string_or_def)
qed

text \<open>
  The theorem for token A in the started swarm with an empty database, when the
  quote request is rejected.
\<close>

theorem executeTrade_failed_buy_witness:
  "wallet started \<noteq> None
   \<and> int (openCount started) < maxConcurrentTrades (config started)
   \<and> find (\<lambda>p. token_address p = t_address tokenA \<and> status p = OPEN) (positions started) = None
   \<and> getBalance world_fail = Inr 1000000000
   \<and> \<not> tradeSize (config started) 1000000000 < 0.005
   \<and> \<not> r_success (executeBuy world_fail (t_address tokenA) (tradeSize (config started) 1000000000)
                          (slippageBps (config started)))
   \<and> (\<exists>s' t. executeTrade world_fail tokenA 85 ''AI agents'' started = Inr s'
             \<and> trade_history s' = trade_history started @ [t]
             \<and> th_side t = BUY \<and> th_success t = 0 \<and> th_error t \<noteq> []
             \<and> th_token_address t = t_address tokenA
             \<and> positions s' = positions started \<and> positions_seq s' = positions_seq started)"
proof -
  have w: "wallet started \<noteq> None" by (simp add: started_def Swarm_def)
  have cnt: "int (openCount started) < maxConcurrentTrades (config started)"
    by (simp add: started_def Swarm_def openCount_def cfg0_def)
  have nodup: "find (\<lambda>p. token_address p = t_address tokenA \<and> status p = OPEN) (positions started) = None"
    by (simp add: started_def Swarm_def)
  have bal: "getBalance world_fail = Inr 1000000000"
    by (simp add: world_fail_def world_ok_def)
  have c: "config started = cfg0" by (simp add: started_def Swarm_def)
  have sz: "\<not> tradeSize (config started) 1000000000 < 0.005"
    by (simp add: c tradeSize_cfg0)
  have thrown: "jupiter world_fail \<lparr>inputMint = SOL_MINT, outputMint = t_address tokenA,
                   amount = \<lfloor>tradeSize (config started) 1000000000 * LAMPORTS_PER_SOL\<rfloor>,
                   req_slippageBps = slippageBps (config started)\<rparr>
                = Thrown \<lparr>e_name = ''Error'', e_message = ''Jupiter quote error: 400''\<rparr>"
    by (simp add: world_fail_def)
  have name: "e_name \<lparr>e_name = ''Error'', e_message = ''Jupiter quote error: 400''\<rparr> \<noteq> []"
    by simp
  from executeTrade_failed_buy [OF w cnt nodup bal sz thrown name, of 85 "''AI agents''"]
    w cnt nodup bal sz
  show ?thesis by blast
qed

section \<open>Decoding a reply never fails\<close>

text \<open>
  Claim C8. When the text left after the code fences are removed and the result is
  trimmed is not JSON (\<open>JSON_parse\<close> throws), \<^verbatim>\<open>llmScore\<close> returns normally with the
  sentinel whose \<^verbatim>\<open>score\<close> is 0 and whose \<^verbatim>\<open>signal\<close> is \<^verbatim>\<open>SKIP\<close>, and
  \<^verbatim>\<open>llmNarrativeAnalysis\<close> returns normally with the object whose \<^verbatim>\<open>narratives\<close> is
  the empty array: in both the result is a value (\<open>Inr\<close>), not an exception.
\<close>

theorem llm_parse_failure_yields_sentinel:
  assumes "JSON_parse (cleaned raw) = None"
  shows "llmScore JSON_parse (Inr raw) = Inr score_sentinel
       \<and> field score_sentinel ''score'' = Some (JNumber 0)
       \<and> field score_sentinel ''signal'' = Some (JString ''SKIP'')
       \<and> llmNarrativeAnalysis JSON_parse (Inr raw) = Inr narratives_sentinel
       \<and> field narratives_sentinel ''narratives'' = Some (JArray [])"
  using assms
  by (simp add: llmScore_def llmNarrativeAnalysis_def score_sentinel_def
      narratives_sentinel_def field_def)

text \<open>
  The theorem at a fenced reply that is not JSON, for a parser that accepts the empty
  object only.
\<close>

theorem llm_parse_failure_yields_sentinel_witness:
  "(\<lambda>t. if t = ''{}'' then Some (JObject []) else None)
       (cleaned ''```json\<newline>{score: 90```  '') = None
   \<and> llmScore (\<lambda>t. if t = ''{}'' then Some (JObject []) else None)
       (Inr ''```json\<newline>{score: 90```  '') = Inr score_sentinel
   \<and> llmNarrativeAnalysis (\<lambda>t. if t = ''{}'' then Some (JObject []) else None)
       (Inr ''```json\<newline>{score: 90```  '') = Inr narratives_sentinel"
proof -
  have c: "cleaned ''```json\<newline>{score: 90```  '' = ''{score: 90''"
    by code_simp
  have h: "(\<lambda>t. if t = ''{}'' then Some (JObject []) else None)
             (cleaned ''```json\<newline>{score: 90```  '') = None"
    by (simp add: c)
  from llm_parse_failure_yields_sentinel
         [of "\<lambda>t. if t = ''{}'' then Some (JObject []) else None"
             "''```json\<newline>{score: 90```  ''", OF h] h
  show ?thesis by simp
qed

section \<open>Closing a position keeps the stored PnL\<close>

text \<open>
  Claim C9. When the sell of an OPEN position succeeds, \<^verbatim>\<open>closePosition\<close> sets
  \<^verbatim>\<open>status\<close> to the close reason, \<^verbatim>\<open>exit_tx\<close>, \<^verbatim>\<open>exit_time\<close> and \<^verbatim>\<open>current_price\<close> (the
  price of the sale when the result carries a non-zero one, else the price the row
  had), and leaves every other column as it was; \<^verbatim>\<open>pnl_pct\<close> in particular keeps
  the value it had before the sell. So after a close \<^verbatim>\<open>pnl_pct\<close> can differ from
  \<open>(current_price - entry_price) / entry_price * 100\<close>: it does for the position
  of \<open>holdingA\<close>, sold at 0.001 after an entry at 2 with \<^verbatim>\<open>pnl_pct\<close> still 0.
\<close>

theorem closePosition_keeps_pnl_pct:
  assumes w: "wallet s \<noteq> None"
    and f: "find (\<lambda>p. pos_id p = i) (positions s) = Some pos"
    and st: "status pos = OPEN"
    and sell: "executeSell w (token_address pos) (token_amount pos) (token_decimals pos)
           (slippageBps (config s)) = result"
    and ok: "r_success result"
  shows "(\<exists>pos'. find (\<lambda>p. pos_id p = i) (positions (closePosition w i reason s)) = Some pos'
            \<and> pos' = pos\<lparr>status := reason, exit_tx := Some (string_or (r_txHash result) []),
                          exit_time := Some (clock w),
                          current_price := number_or (r_price result) (current_price pos)\<rparr>
            \<and> pnl_pct pos' = pnl_pct pos
            \<and> (\<forall>v. r_price result = Some v \<and> v \<noteq> 0 \<longrightarrow> current_price pos' = v))
       \<and> (\<exists>pos'. find (\<lambda>p. pos_id p = 1)
                    (positions (closePosition world_ok 1 STOPPED
                       holdingA)) = Some pos'
            \<and> status pos' = STOPPED
            \<and> pnl_pct pos' \<noteq> (current_price pos' - entry_price pos') / entry_price pos' * 100)"
proof -
  have i: "pos_id pos = i"
    using f by (auto dest: find_Some_iff [THEN iffD1])
  have "closePosition w i reason s = update_position i
             (\<lambda>p. p\<lparr>status := reason, exit_tx := Some (string_or (r_txHash result) []),
                     exit_time := Some (clock w),
                     current_price := number_or (r_price result) (current_price pos),
                     pnl_pct := pnl_pct pos\<rparr>)
             (insert_trade
                \<lparr>th_token_address = token_address pos, th_symbol = symbol pos,
                 th_side = SELL, th_sol_amount = number_or (r_outputAmount result) 0,
                 th_token_amount = token_amount pos,
                 th_price = number_or (r_price result) 0,
                 th_tx_hash = string_or (r_txHash result) [],
                 th_success = 1,
                 th_error = string_or (r_error result) [],
                 th_timestamp = r_timestamp result\<rparr> s)"
    by (rule closePosition_sold [OF w f st sell ok])
  then have "find (\<lambda>p. pos_id p = i) (positions (closePosition w i reason s))
      = Some (pos\<lparr>status := reason, exit_tx := Some (string_or (r_txHash result) []),
                     exit_time := Some (clock w),
                     current_price := number_or (r_price result) (current_price pos),
                     pnl_pct := pnl_pct pos\<rparr>)"
    using f i by (simp add: update_position_def insert_trade_def find_update_position)
  then have A: "\<exists>pos'. find (\<lambda>p. pos_id p = i) (positions (closePosition w i reason s)) = Some pos'
            \<and> pos' = pos\<lparr>status := reason, exit_tx := Some (string_or (r_txHash result) []),
                          exit_time := Some (clock w),
                          current_price := number_or (r_price result) (current_price pos)\<rparr>
            \<and> pnl_pct pos' = pnl_pct pos
            \<and> (\<forall>v. r_price result = Some v \<and> v \<noteq> 0 \<longrightarrow> current_price pos' = v)"
    by (simp add: number_or_def)
  have B: "\<exists>pos'. find (\<lambda>p. pos_id p = 1)
                    (positions (closePosition world_ok 1 STOPPED
                       holdingA)) = Some pos'
            \<and> status pos' = STOPPED
            \<and> pnl_pct pos' \<noteq> (current_price pos' - entry_price pos') / entry_price pos' * 100"
    by (simp add: closePosition_def positions_holdingA wallet_holdingA config_holdingA
        positionA_def cfg0_def sell_positionA insert_trade_def update_position_def
        number_or_def string_or_def Let_def)
  from A B show ?thesis by blast
qed

text \<open>The theorem for the position of \<open>holdingA\<close>, closed as a take-profit.\<close>

theorem closePosition_keeps_pnl_pct_witness:
  "wallet holdingA \<noteq> None
   \<and> find (\<lambda>p. pos_id p = 1) (positions holdingA) = Some positionA
   \<and> status positionA = OPEN
   \<and> r_success (executeSell world_ok (token_address positionA) (token_amount positionA)
                  (token_decimals positionA) (slippageBps (config holdingA)))
   \<and> find (\<lambda>p. pos_id p = 1) (positions (closePosition world_ok 1 TP_HIT holdingA))
       = Some (positionA\<lparr>status := TP_HIT, exit_tx := Some ''tx1'', exit_time := Some 11,
                          current_price := 0.001\<rparr>)
   \<and> pnl_pct positionA = 0"
proof -
  have w: "wallet holdingA \<noteq> None" by (simp add: wallet_holdingA)
  have f: "find (\<lambda>p. pos_id p = 1) (positions holdingA) = Some positionA"
    by (simp add: positions_holdingA positionA_def)
  have st: "status positionA = OPEN" by (simp add: positionA_def)
  have sell: "executeSell world_ok (token_address positionA) (token_amount positionA)
                (token_decimals positionA) (slippageBps (config holdingA))
              = \<lparr>r_success = True, r_txHash = Some ''tx1'', r_error = None, r_inputAmount = 100,
                 r_outputAmount = Some 0.1, r_price = Some 0.001, r_timestamp = 10\<rparr>"
    by (simp add: positionA_def config_holdingA cfg0_def sell_positionA)
  have ok: "r_success \<lparr>r_success = True, r_txHash = Some ''tx1'', r_error = None,
                 r_inputAmount = 100, r_outputAmount = Some 0.1, r_price = Some 0.001,
                 r_timestamp = 10\<rparr>"
    by simp
  from closePosition_keeps_pnl_pct [OF w f st sell ok, of TP_HIT] w f st sell
  show ?thesis
    by (simp add: number_or_def string_or_def world_ok_def positionA_def)
qed

section \<open>Every stored position has six token decimals\<close>

text \<open>
  Claim C10. Start from an empty table \<^verbatim>\<open>positions\<close> and let any sequence of Executor
  buys, manual buys, manual sells, risk ticks, price ticks and stops run, with any
  answers of the outside world. Every row of the table then has \<^verbatim>\<open>token_decimals\<close> 6,
  whatever the token is. And the sale that \<^verbatim>\<open>closePosition\<close> then makes of an OPEN row
  \<open>p\<close> scales by the stored value: what \<^verbatim>\<open>closePosition\<close> does is fixed by the answer
  of the aggregator to the request to swap \<open>\<lfloor>token_amount p * 10^6\<rfloor>\<close> raw units of
  the token into SOL. When the answer is a confirmed transaction the row is closed at
  the price of the sale and a SELL row with \<^verbatim>\<open>success\<close> 1 is appended to the ledger;
  when it is an exception the table is unchanged and a SELL row with \<^verbatim>\<open>success\<close> 0 and
  the error text is appended.
\<close>

theorem token_decimals_six:
  assumes empty: "positions s0 = []"
  shows "(\<forall>p \<in> set (positions (run evs s0)). token_decimals p = 6)
       \<and> (\<forall>i p. wallet (run evs s0) \<noteq> None
                \<and> find (\<lambda>q. pos_id q = i) (positions (run evs s0)) = Some p
                \<and> status p = OPEN \<longrightarrow>
            closePosition w i reason (run evs s0) =
              (case jupiter w \<lparr>inputMint = token_address p, outputMint = SOL_MINT,
                                amount = \<lfloor>token_amount p * 1000000\<rfloor>,
                                req_slippageBps = slippageBps (config (run evs s0))\<rparr> of
                 Confirmed txHash q \<Rightarrow>
                   update_position i
                     (\<lambda>r. r\<lparr>status := reason, exit_tx := Some txHash, exit_time := Some (clock w),
                             current_price :=
                               number_or (Some (q_outAmount q / LAMPORTS_PER_SOL / token_amount p))
                                 (current_price p),
                             pnl_pct := pnl_pct p\<rparr>)
                     (insert_trade
                        \<lparr>th_token_address = token_address p, th_symbol = symbol p, th_side = SELL,
                         th_sol_amount = number_or (Some (q_outAmount q / LAMPORTS_PER_SOL)) 0,
                         th_token_amount = token_amount p,
                         th_price =
                           number_or (Some (q_outAmount q / LAMPORTS_PER_SOL / token_amount p)) 0,
                         th_tx_hash = txHash, th_success = 1, th_error = [],
                         th_timestamp = swap_clock w\<rparr> (run evs s0))
               | Thrown e \<Rightarrow>
                   insert_trade
                     \<lparr>th_token_address = token_address p, th_symbol = symbol p, th_side = SELL,
                      th_sol_amount = 0, th_token_amount = token_amount p, th_price = 0,
                      th_tx_hash = [], th_success = 0,
                      th_error = string_or (Some (e_message e)) (String_of_error e),
                      th_timestamp = swap_clock w\<rparr> (run evs s0)))"
proof (intro conjI ballI allI impI)
  fix p assume "p \<in> set (positions (run evs s0))"
  then have "token_decimals p \<in> set (map token_decimals (positions (run evs s0)))"
    by simp
  with decimals_run [of evs s0] empty show "token_decimals p = 6"
    by auto
next
  fix i p
  assume a: "wallet (run evs s0) \<noteq> None
                \<and> find (\<lambda>q. pos_id q = i) (positions (run evs s0)) = Some p
                \<and> status p = OPEN"
  then have "p \<in> set (positions (run evs s0))"
    by (auto simp add: find_Some_iff)
  then have "token_decimals p \<in> set (map token_decimals (positions (run evs s0)))"
    by simp
  with decimals_run [of evs s0] empty have six: "token_decimals p = 6"
    by auto
  from a have wal: "wallet (run evs s0) \<noteq> None"
    and f: "find (\<lambda>q. pos_id q = i) (positions (run evs s0)) = Some p"
    and st: "status p = OPEN"
    by simp_all
  show "closePosition w i reason (run evs s0) =
              (case jupiter w \<lparr>inputMint = token_address p, outputMint = SOL_MINT,
                                amount = \<lfloor>token_amount p * 1000000\<rfloor>,
                                req_slippageBps = slippageBps (config (run evs s0))\<rparr> of
                 Confirmed txHash q \<Rightarrow>
                   update_position i
                     (\<lambda>r. r\<lparr>status := reason, exit_tx := Some txHash, exit_time := Some (clock w),
                             current_price :=
                               number_or (Some (q_outAmount q / LAMPORTS_PER_SOL / token_amount p))
                                 (current_price p),
                             pnl_pct := pnl_pct p\<rparr>)
                     (insert_trade
                        \<lparr>th_token_address = token_address p, th_symbol = symbol p, th_side = SELL,
                         th_sol_amount = number_or (Some (q_outAmount q / LAMPORTS_PER_SOL)) 0,
                         th_token_amount = token_amount p,
                         th_price =
                           number_or (Some (q_outAmount q / LAMPORTS_PER_SOL / token_amount p)) 0,
                         th_tx_hash = txHash, th_success = 1, th_error = [],
                         th_timestamp = swap_clock w\<rparr> (run evs s0))
               | Thrown e \<Rightarrow>
                   insert_trade
                     \<lparr>th_token_address = token_address p, th_symbol = symbol p, th_side = SELL,
                      th_sol_amount = 0, th_token_amount = token_amount p, th_price = 0,
                      th_tx_hash = [], th_success = 0,
                      th_error = string_or (Some (e_message e)) (String_of_error e),
                      th_timestamp = swap_clock w\<rparr> (run evs s0))"
    by (rule closePosition_request [OF wal f st six])
qed

text \<open>
  The theorem for the row of token B after an Executor buy of token A and a manual buy
  of token B: the position holds 100 tokens, the request is for 100000000 raw units,
  and the close of the position changes its status to CLOSED.
\<close>

theorem token_decimals_six_witness:
  "positions started = []
   \<and> wallet (run [ExecuteTrade world_ok tokenA 85 ''AI agents'',
                  ManualBuy world_ok ''B'' 0.05] started) \<noteq> None
   \<and> find (\<lambda>q. pos_id q = 2)
        (positions (run [ExecuteTrade world_ok tokenA 85 ''AI agents'',
                         ManualBuy world_ok ''B'' 0.05] started)) = Some positionB
   \<and> status positionB = OPEN
   \<and> token_decimals positionB = 6
   \<and> jupiter world_ok \<lparr>inputMint = ''B'', outputMint = SOL_MINT, amount = 100000000,
                         req_slippageBps = 500\<rparr>
       = Confirmed ''tx1'' \<lparr>q_outAmount = 100000000, q_outputDecimals = None\<rparr>
   \<and> map status (positions (closePosition world_ok 2 CLOSED
                    (run [ExecuteTrade world_ok tokenA 85 ''AI agents'',
                          ManualBuy world_ok ''B'' 0.05] started))) = [OPEN, CLOSED]"
proof -
  let ?s = "run [ExecuteTrade world_ok tokenA 85 ''AI agents'', ManualBuy world_ok ''B'' 0.05]
              started"
  have e: "positions started = []" by (simp add: started_def Swarm_def)
  have w: "wallet ?s \<noteq> None" unfolding wallet_run_A_B(1) by simp
  have f: "find (\<lambda>q. pos_id q = 2) (positions ?s) = Some positionB"
    unfolding positions_run_A_B by (simp add: positionA_def positionB_def)
  have st: "status positionB = OPEN" by (simp add: positionB_def)
  have j: "jupiter world_ok \<lparr>inputMint = ''B'', outputMint = SOL_MINT, amount = 100000000,
                         req_slippageBps = 500\<rparr>
       = Confirmed ''tx1'' \<lparr>q_outAmount = 100000000, q_outputDecimals = None\<rparr>"
    by (simp add: world_ok_def)
  have a: "\<lfloor>token_amount positionB * 1000000\<rfloor> = 100000000" "token_address positionB = ''B''"
    by (simp_all add: positionB_def)
  note t = token_decimals_six [OF e, of "[ExecuteTrade world_ok tokenA 85 ''AI agents'',
                                          ManualBuy world_ok ''B'' 0.05]" world_ok CLOSED]
  have "positionB \<in> set (positions ?s)"
    unfolding positions_run_A_B by simp
  with t have six: "token_decimals positionB = 6"
    by blast
  from t w f st have c: "closePosition world_ok 2 CLOSED ?s =
              (case jupiter world_ok \<lparr>inputMint = token_address positionB, outputMint = SOL_MINT,
                                amount = \<lfloor>token_amount positionB * 1000000\<rfloor>,
                                req_slippageBps = slippageBps (config ?s)\<rparr> of
                 Confirmed txHash q \<Rightarrow>
                   update_position 2
                     (\<lambda>r. r\<lparr>status := CLOSED, exit_tx := Some txHash, exit_time := Some (clock world_ok),
                             current_price :=
                               number_or (Some (q_outAmount q / LAMPORTS_PER_SOL / token_amount positionB))
                                 (current_price positionB),
                             pnl_pct := pnl_pct positionB\<rparr>)
                     (insert_trade
                        \<lparr>th_token_address = token_address positionB, th_symbol = symbol positionB, th_side = SELL,
                         th_sol_amount = number_or (Some (q_outAmount q / LAMPORTS_PER_SOL)) 0,
                         th_token_amount = token_amount positionB,
                         th_price =
                           number_or (Some (q_outAmount q / LAMPORTS_PER_SOL / token_amount positionB)) 0,
                         th_tx_hash = txHash, th_success = 1, th_error = [],
                         th_timestamp = swap_clock world_ok\<rparr> ?s)
               | Thrown e \<Rightarrow>
                   insert_trade
                     \<lparr>th_token_address = token_address positionB, th_symbol = symbol positionB, th_side = SELL,
                      th_sol_amount = 0, th_token_amount = token_amount positionB, th_price = 0,
                      th_tx_hash = [], th_success = 0,
                      th_error = string_or (Some (e_message e)) (String_of_error e),
                      th_timestamp = swap_clock world_ok\<rparr> ?s)"
    by blast
  have r: "map status (positions (closePosition world_ok 2 CLOSED ?s)) = [OPEN, CLOSED]"
    unfolding c a wallet_run_A_B(2) j swap_outcome.case update_position_def
    using positions_run_A_B by (simp add: positionA_def positionB_def)
  from e w f st six j r show ?thesis by blast
qed

section \<open>Further properties of the close path\<close>

text \<open>
  A close of a position that is not OPEN does nothing: no swap, no ledger row, no
  change of the row. So a second risk check or manual sell of a closed position is
  without effect.
\<close>

theorem closePosition_not_open_is_noop:
  assumes "find (\<lambda>p. pos_id p = i) (positions s) = Some pos" and "status pos \<noteq> OPEN"
  shows "closePosition w i r s = s \<and> snd (manualSell w i s) = s"
proof -
  from assms have "closePosition w i r' s = s" for r'
    by (simp add: closePosition_def)
  then show ?thesis
    by (simp add: manualSell_is_closePosition)
qed

text \<open>The theorem for the position of \<open>closedA\<close>, closed as a take-profit before.\<close>

theorem closePosition_not_open_is_noop_witness:
  "find (\<lambda>p. pos_id p = 1) (positions closedA)
     = Some (positionA\<lparr>status := TP_HIT, exit_tx := Some ''tx1'', exit_time := Some 11,
                        current_price := 0.001\<rparr>)
   \<and> status (positionA\<lparr>status := TP_HIT, exit_tx := Some ''tx1'', exit_time := Some 11,
                        current_price := 0.001\<rparr>) \<noteq> OPEN
   \<and> closePosition world_ok 1 STOPPED closedA = closedA
   \<and> snd (manualSell world_ok 1 closedA) = closedA"
proof -
  have f: "find (\<lambda>p. pos_id p = 1) (positions closedA)
     = Some (positionA\<lparr>status := TP_HIT, exit_tx := Some ''tx1'', exit_time := Some 11,
                        current_price := 0.001\<rparr>)"
    by (simp add: positions_closedA positionA_def)
  have n: "status (positionA\<lparr>status := TP_HIT, exit_tx := Some ''tx1'', exit_time := Some 11,
                        current_price := 0.001\<rparr>) \<noteq> OPEN"
    by simp
  from closePosition_not_open_is_noop [OF f n, of world_ok STOPPED] f n
  show ?thesis by blast
qed

text \<open>
  A position at or below the stop-loss threshold whose sell is confirmed: the risk
  check appends one SELL ledger row with \<^verbatim>\<open>success\<close> 1, and the row ends STOPPED with
  its exit time and exit transaction set.
\<close>

theorem stop_loss_closes_position:
  assumes w: "wallet s \<noteq> None"
    and f: "find (\<lambda>p. pos_id p = pos_id pos) (positions s) = Some pos"
    and st: "status pos = OPEN"
    and sl: "pnl_pct pos \<le> - stopLossPct (config s)"
    and sw: "jupiter w \<lparr>inputMint = token_address pos, outputMint = SOL_MINT,
                         amount = \<lfloor>token_amount pos * 10 ^ token_decimals pos\<rfloor>,
                         req_slippageBps = slippageBps (config s)\<rparr> = Confirmed h q"
  shows "(\<exists>t. trade_history (riskCheck w pos s) = trade_history s @ [t]
            \<and> th_side t = SELL \<and> th_success t = 1 \<and> th_token_address t = token_address pos)
       \<and> (\<exists>pos'. find (\<lambda>p. pos_id p = pos_id pos) (positions (riskCheck w pos s)) = Some pos'
            \<and> status pos' = STOPPED \<and> exit_time pos' = Some (clock w)
            \<and> exit_tx pos' = Some h \<and> token_address pos' = token_address pos)"
proof -
  note r = executeSell_Confirmed [OF sw]
  have ok: "r_success (executeSell w (token_address pos) (token_amount pos) (token_decimals pos)
                         (slippageBps (config s)))"
    by (simp add: r)
  have c: "riskCheck w pos s = closePosition w (pos_id pos) STOPPED s"
    using sl by (simp add: riskCheck_def)
  show ?thesis
    unfolding c closePosition_sold [OF w f st refl ok]
    using f by (simp add: update_position_def find_update_position r string_or_def)
qed

text \<open>The theorem with a stop-loss of 30 percent for the position of \<open>droppedA\<close>, at -31.\<close>

theorem stop_loss_closes_position_witness:
  "stopLossPct (config droppedA) = 30
   \<and> positions droppedA = [positionA\<lparr>current_price := 1.38, pnl_pct := - 31\<rparr>]
   \<and> (\<exists>t. trade_history (riskCheck world_ok (positionA\<lparr>current_price := 1.38, pnl_pct := - 31\<rparr>)
                              droppedA) = trade_history droppedA @ [t]
          \<and> th_side t = SELL \<and> th_success t = 1)
   \<and> (\<exists>pos'. find (\<lambda>p. pos_id p = 1)
                 (positions (riskCheck world_ok (positionA\<lparr>current_price := 1.38, pnl_pct := - 31\<rparr>)
                               droppedA)) = Some pos'
          \<and> status pos' = STOPPED \<and> exit_time pos' = Some 11)"
proof -
  let ?pos = "positionA\<lparr>current_price := 1.38, pnl_pct := - 31\<rparr>"
  have w: "wallet droppedA \<noteq> None" by (simp add: wallet_droppedA)
  have f: "find (\<lambda>p. pos_id p = pos_id ?pos) (positions droppedA) = Some ?pos"
    by (simp add: positions_droppedA)
  have st: "status ?pos = OPEN" by (simp add: positionA_def)
  have sl: "pnl_pct ?pos \<le> - stopLossPct (config droppedA)"
    by (simp add: config_droppedA cfg0_def)
  have sw: "jupiter world_ok \<lparr>inputMint = token_address ?pos, outputMint = SOL_MINT,
                         amount = \<lfloor>token_amount ?pos * 10 ^ token_decimals ?pos\<rfloor>,
                         req_slippageBps = slippageBps (config droppedA)\<rparr>
            = Confirmed ''tx1'' \<lparr>q_outAmount = 100000000, q_outputDecimals = None\<rparr>"
    by (simp add: world_ok_def)
  have c: "stopLossPct (config droppedA) = 30" "pos_id ?pos = 1" "clock world_ok = 11"
    by (simp_all add: config_droppedA cfg0_def positionA_def world_ok_def)
  from stop_loss_closes_position [OF w f st sl sw] c positions_droppedA
  show ?thesis by auto
qed

text \<open>
  A sell that fails is recorded in the ledger with \<^verbatim>\<open>success\<close> 0 and the error text,
  and table \<^verbatim>\<open>positions\<close> is unchanged: the position stays OPEN.
\<close>

theorem failed_sell_leaves_position_open:
  assumes w: "wallet s \<noteq> None"
    and f: "find (\<lambda>p. pos_id p = i) (positions s) = Some pos"
    and st: "status pos = OPEN"
    and sw: "jupiter w \<lparr>inputMint = token_address pos, outputMint = SOL_MINT,
                         amount = \<lfloor>token_amount pos * 10 ^ token_decimals pos\<rfloor>,
                         req_slippageBps = slippageBps (config s)\<rparr> = Thrown e"
  shows "positions (closePosition w i reason s) = positions s
       \<and> (\<exists>t. trade_history (closePosition w i reason s) = trade_history s @ [t]
             \<and> th_side t = SELL \<and> th_success t = 0
             \<and> th_error t = string_or (Some (e_message e)) (String_of_error e))"
  using w f st executeSell_Thrown [OF sw]
  by (auto simp add: closePosition_def Let_def string_or_def)

text \<open>The theorem for the position of \<open>holdingA\<close> when the quote request is rejected.\<close>

theorem failed_sell_leaves_position_open_witness:
  "wallet holdingA \<noteq> None
   \<and> find (\<lambda>p. pos_id p = 1) (positions holdingA) = Some positionA
   \<and> status positionA = OPEN
   \<and> positions (closePosition world_fail 1 STOPPED holdingA) = [positionA]
   \<and> (\<exists>t. trade_history (closePosition world_fail 1 STOPPED holdingA) = trade_history holdingA @ [t]
          \<and> th_side t = SELL \<and> th_success t = 0 \<and> th_error t = ''Jupiter quote error: 400'')"
proof -
  have w: "wallet holdingA \<noteq> None" by (simp add: wallet_holdingA)
  have f: "find (\<lambda>p. pos_id p = 1) (positions holdingA) = Some positionA"
    by (simp add: positions_holdingA positionA_def)
  have st: "status positionA = OPEN" by (simp add: positionA_def)
  have sw: "jupiter world_fail \<lparr>inputMint = token_address positionA, outputMint = SOL_MINT,
                         amount = \<lfloor>token_amount positionA * 10 ^ token_decimals positionA\<rfloor>,
                         req_slippageBps = slippageBps (config holdingA)\<rparr>
            = Thrown \<lparr>e_name = ''Error'', e_message = ''Jupiter quote error: 400''\<rparr>"
    by (simp add: world_fail_def)
  from failed_sell_leaves_position_open [OF w f st sw, of STOPPED] w f st positions_holdingA
  show ?thesis by (simp add: string_or_def)
qed

text \<open>
  Without a wallet (monitoring mode) every call of \<^verbatim>\<open>closePosition\<close> returns at once,
  so a tick of the risk manager changes neither the positions nor the ledger, whatever
  the PnL of the open positions is.
\<close>

theorem risk_tick_without_wallet:
  assumes "wallet s = None"
  shows "positions (runRiskManager ws w s) = positions s
       \<and> trade_history (runRiskManager ws w s) = trade_history s"
  using assms
  by (simp add: runRiskManager_def Let_def riskLoop_without_wallet split: sum.splits)

text \<open>The theorem for \<open>watchingAB\<close>, whose two open positions meet both thresholds.\<close>

theorem risk_tick_without_wallet_witness:
  "wallet watchingAB = None
   \<and> running watchingAB
   \<and> pnl_pct positionB \<le> - stopLossPct (config watchingAB)
   \<and> positions (runRiskManager (\<lambda>i. world_ok) world_ok watchingAB) = [positionA, positionB]"
proof -
  have w: "wallet watchingAB = None" by (simp add: watchingAB_def)
  have r: "running watchingAB" by (simp add: watchingAB_def boundaryAB_def running_holdingAB)
  have t: "pnl_pct positionB \<le> - stopLossPct (config watchingAB)"
    by (simp add: watchingAB_def boundaryAB_def positionB_def)
  have p: "positions watchingAB = [positionA, positionB]"
    by (simp add: watchingAB_def boundaryAB_def positions_holdingAB)
  from risk_tick_without_wallet [OF w, of "\<lambda>i. world_ok" world_ok] w r t p
  show ?thesis by simp
qed

section \<open>Row ids are a key\<close>

text \<open>
  Every insert takes an id larger than all ids of the table, and no update changes
  an id: from a table whose ids are distinct, every run leaves the ids distinct.
\<close>

theorem row_ids_stay_distinct:
  assumes "distinct (map pos_id (positions s))"
  shows "distinct (map pos_id (positions (run evs s)))"
  using assms
proof (induction evs arbitrary: s)
  case Nil
  then show ?case by (simp add: run_def)
next
  case (Cons e evs)
  from Cons.IH [OF distinct_ids_step [OF Cons.prems]] show ?case by (simp add: run_def)
qed

text \<open>The theorem for two manual buys on an empty table: the rows get ids 1 and 2.\<close>

theorem row_ids_stay_distinct_witness:
  "distinct (map pos_id (positions started))
   \<and> map pos_id (positions (run [ManualBuy world_ok ''A'' 0.05, ManualBuy world_ok ''B'' 0.05]
                               started)) = [1, 2]
   \<and> distinct (map pos_id (positions (run [ManualBuy world_ok ''A'' 0.05,
                                           ManualBuy world_ok ''B'' 0.05] started)))"
proof -
  have d: "distinct (map pos_id (positions started))"
    by (simp add: started_def Swarm_def)
  have r: "map pos_id (positions (run [ManualBuy world_ok ''A'' 0.05, ManualBuy world_ok ''B'' 0.05]
                               started)) = [1, 2]"
    by (simp only: run_two_manual_buys positions_holdingAB) (simp add: positionA_def positionB_def)
  from row_ids_stay_distinct [OF d, of "[ManualBuy world_ok ''A'' 0.05, ManualBuy world_ok ''B'' 0.05]"]
    d r
  show ?thesis by blast
qed

end
